theory Spec2Isabelle
  imports Complex_Main "HOL-Library.AList"
begin

section \<open>Python objects, exceptions and dictionaries\<close>

text \<open>
  The two source files are \<^verbatim>\<open>torch/_dynamo/backends/train_step.py\<close> (the training-step
  compiler and the scoped rebinding of an optimizer) and
  \<^verbatim>\<open>torch/distributed/_spmd/parallel_mode.py\<close> (the parallel-mode interface and its
  fallback strategy).

  Python objects have an identity (\<^verbatim>\<open>id(x)\<close>), here a natural number. A tensor is a
  reference that carries its immutable attributes (shape, dtype, device, and whether it is a
  \<^verbatim>\<open>FakeTensor\<close>, the shape-only placeholder); the elements of a real tensor are kept in
  the store under the tensor's identity, since \<^verbatim>\<open>zero_()\<close> and the compiled graph write
  them in place. A \<^verbatim>\<open>FakeTensor\<close> is a subclass of \<^verbatim>\<open>torch.Tensor\<close>.
\<close>

type_synonym ref = nat

datatype device = CPU | CUDA nat

datatype dtype = Float32 | Float64 | Int64

text \<open>
  \<open>Fake (Some m)\<close> is a \<^verbatim>\<open>FakeTensor\<close> whose attribute \<^verbatim>\<open>fake_mode\<close> is the
  \<^verbatim>\<open>FakeTensorMode\<close> object \<open>m\<close>; \<open>Fake None\<close> is one whose attribute is not a
  \<^verbatim>\<open>FakeTensorMode\<close>. A real tensor has no such attribute.
\<close>

datatype tkind = Real | Fake "ref option"

record tensor =
  tid :: ref
  shape :: "nat list"
  dtype :: dtype
  device :: device
  kind :: tkind

text \<open>Any Python object that is not a tensor (an \<^verbatim>\<open>int\<close>, \<^verbatim>\<open>None\<close>, ...) is \<open>PObject\<close>.\<close>

datatype pyobj = PTensor tensor | PObject ref

fun obj_id :: "pyobj \<Rightarrow> ref" where
  "obj_id (PTensor t) = tid t"
| "obj_id (PObject r) = r"

fun is_Tensor :: "pyobj \<Rightarrow> bool" where
  "is_Tensor (PTensor t) = True"
| "is_Tensor (PObject r) = False"

fun is_FakeTensor :: "pyobj \<Rightarrow> bool" where
  "is_FakeTensor (PTensor t) = (kind t \<noteq> Real)"
| "is_FakeTensor (PObject r) = False"

datatype error =
    AssertionError string
  | RuntimeError string
  | KeyError
  | IndexError
  | AttributeError
  | TypeError
  | ValueError
  | NotImplementedError
  | OtherError string

text \<open>
  A \<^verbatim>\<open>dict\<close> is an association list in insertion order with distinct keys.
  \<^verbatim>\<open>d[k] = v\<close> is \<^const>\<open>AList.update\<close>: it overwrites in place or appends.
  \<^verbatim>\<open>dict(items)\<close> and \<^verbatim>\<open>d.update(other)\<close> store the items one by one.
\<close>

definition dict_update :: "('k \<times> 'v) list \<Rightarrow> ('k \<times> 'v) list \<Rightarrow> ('k \<times> 'v) list" where
  "dict_update d other = fold (\<lambda>kv acc. AList.update (fst kv) (snd kv) acc) other d"

definition dict_of :: "('k \<times> 'v) list \<Rightarrow> ('k \<times> 'v) list" where
  "dict_of items = dict_update [] items"

section \<open>Structure Flattener\<close>

text \<open>
  Modelled from the spec: \<^verbatim>\<open>torch.utils._pytree\<close> (\<^verbatim>\<open>tree_flatten\<close>,
  \<^verbatim>\<open>tree_unflatten\<close>) is imported by both source files and is not among them. Section 4.1
  of the specification: \<^verbatim>\<open>flatten(nested) -> (sequence, descriptor)\<close> and
  \<^verbatim>\<open>unflatten(sequence, descriptor) -> nested\<close>; the order of the sequence is the
  insertion order of the nested mapping; the descriptor records the nesting and the keys;
  \<^verbatim>\<open>unflatten\<close> fails when the length of the sequence disagrees with the descriptor.
  The containers are the ones the two files flatten: dictionaries, lists and tuples.
\<close>

datatype 'a pytree =
    Leaf 'a
  | PDict "(string \<times> 'a pytree) list"
  | PList "'a pytree list"
  | PTuple "'a pytree list"

datatype treespec =
    LeafSpec
  | DictSpec "string list" "treespec list"
  | ListSpec "treespec list"
  | TupleSpec "treespec list"

fun tree_flatten :: "'a pytree \<Rightarrow> 'a list \<times> treespec" where
  "tree_flatten (Leaf x) = ([x], LeafSpec)"
| "tree_flatten (PDict kvs) =
     (concat (map (\<lambda>kv. fst (tree_flatten (snd kv))) kvs),
      DictSpec (map fst kvs) (map (\<lambda>kv. snd (tree_flatten (snd kv))) kvs))"
| "tree_flatten (PList ts) =
     (concat (map (\<lambda>t. fst (tree_flatten t)) ts),
      ListSpec (map (\<lambda>t. snd (tree_flatten t)) ts))"
| "tree_flatten (PTuple ts) =
     (concat (map (\<lambda>t. fst (tree_flatten t)) ts),
      TupleSpec (map (\<lambda>t. snd (tree_flatten t)) ts))"

fun num_leaves :: "treespec \<Rightarrow> nat" where
  "num_leaves LeafSpec = 1"
| "num_leaves (DictSpec ks cs) = sum_list (map num_leaves cs)"
| "num_leaves (ListSpec cs) = sum_list (map num_leaves cs)"
| "num_leaves (TupleSpec cs) = sum_list (map num_leaves cs)"

fun tree_unflatten :: "'a list \<Rightarrow> treespec \<Rightarrow> error + 'a pytree"
  and unflatten_children :: "'a list \<Rightarrow> treespec list \<Rightarrow> error + 'a pytree list" where
  "tree_unflatten vs LeafSpec =
     (case vs of [v] \<Rightarrow> Inr (Leaf v) | _ \<Rightarrow> Inl ValueError)"
| "tree_unflatten vs (DictSpec ks cs) =
     (if length vs \<noteq> num_leaves (DictSpec ks cs) then Inl ValueError
      else case unflatten_children vs cs of
        Inl e \<Rightarrow> Inl e
      | Inr ts \<Rightarrow> Inr (PDict (zip ks ts)))"
| "tree_unflatten vs (ListSpec cs) =
     (if length vs \<noteq> num_leaves (ListSpec cs) then Inl ValueError
      else case unflatten_children vs cs of
        Inl e \<Rightarrow> Inl e
      | Inr ts \<Rightarrow> Inr (PList ts))"
| "tree_unflatten vs (TupleSpec cs) =
     (if length vs \<noteq> num_leaves (TupleSpec cs) then Inl ValueError
      else case unflatten_children vs cs of
        Inl e \<Rightarrow> Inl e
      | Inr ts \<Rightarrow> Inr (PTuple ts))"
| "unflatten_children vs [] = Inr []"
| "unflatten_children vs (c # cs) =
     (case tree_unflatten (take (num_leaves c) vs) c of
        Inl e \<Rightarrow> Inl e
      | Inr t \<Rightarrow>
          (case unflatten_children (drop (num_leaves c) vs) cs of
             Inl e \<Rightarrow> Inl e
           | Inr ts \<Rightarrow> Inr (t # ts)))"

section \<open>The store of mutable objects\<close>

text \<open>
  Dictionaries that the code shares and updates in place are objects of the store: the
  per-parameter state records of an optimizer (\<^verbatim>\<open>opt.state[p]\<close>, a dictionary from a state
  name to a tensor) and its parameter groups (\<^verbatim>\<open>opt.param_groups[i]\<close>, of which only the
  entry \<^verbatim>\<open>"params"\<close> is read or written here). \<open>next_ref\<close> is the identity the next
  allocated object gets.
\<close>

record param_group =
  params :: "pyobj list"

record store =
  tdata :: "ref \<Rightarrow> real list"
  records :: "ref \<Rightarrow> (string \<times> pyobj) list"
  groups :: "ref \<Rightarrow> param_group"
  next_ref :: ref

text \<open>\<^verbatim>\<open>torch.empty(0)\<close>: a new tensor with no element, of the default dtype, on the CPU.\<close>

definition torch_empty_at :: "ref \<Rightarrow> tensor" where
  "torch_empty_at r = \<lparr>tid = r, shape = [0], dtype = Float32, device = CPU, kind = Real\<rparr>"

definition torch_empty0 :: "store \<Rightarrow> tensor \<times> store" where
  "torch_empty0 s =
     (torch_empty_at (next_ref s),
      s\<lparr>tdata := (tdata s)(next_ref s := []), next_ref := Suc (next_ref s)\<rparr>)"

section \<open>Parallel modes (parallel_mode.py)\<close>

subsection \<open>The interface and its classes\<close>

text \<open>
  \<^verbatim>\<open>class ParallelMode(ABC)\<close> declares \<^verbatim>\<open>expand\<close> and \<^verbatim>\<open>optimize\<close> under
  \<^verbatim>\<open>@abstractmethod\<close> and \<^verbatim>\<open>configure_optimization_passes\<close> without it; the body of
  each of the three is \<^verbatim>\<open>raise NotImplementedError()\<close>.
  \<^verbatim>\<open>class DTensorFallbackMode(ParallelMode)\<close> defines \<^verbatim>\<open>expand\<close> (the algorithm below)
  and \<^verbatim>\<open>optimize\<close> (again \<^verbatim>\<open>raise NotImplementedError()\<close>).

  A class body maps a method name to its definition; a derived class looks a name up in its
  own body first. As \<^verbatim>\<open>ABCMeta\<close> has it, the abstract methods of a class are the names
  whose definition in force carries \<^verbatim>\<open>@abstractmethod\<close>, and a class with an abstract
  method cannot be instantiated (\<^verbatim>\<open>TypeError\<close>).
\<close>

datatype method_name = M_expand | M_optimize | M_configure_optimization_passes

datatype method_body = Raise_NotImplementedError | DTensorFallbackMode_expand

record method_def =
  abstractmethod :: bool
  mbody :: method_body

type_synonym class_body = "method_name \<rightharpoonup> method_def"

definition ParallelMode :: class_body where
  "ParallelMode =
     [M_expand \<mapsto> \<lparr>abstractmethod = True, mbody = Raise_NotImplementedError\<rparr>,
      M_optimize \<mapsto> \<lparr>abstractmethod = True, mbody = Raise_NotImplementedError\<rparr>,
      M_configure_optimization_passes \<mapsto>
        \<lparr>abstractmethod = False, mbody = Raise_NotImplementedError\<rparr>]"

definition derive_class :: "class_body \<Rightarrow> class_body \<Rightarrow> class_body" where
  "derive_class base own = base ++ own"

definition DTensorFallbackMode :: class_body where
  "DTensorFallbackMode = derive_class ParallelMode
     [M_expand \<mapsto> \<lparr>abstractmethod = False, mbody = DTensorFallbackMode_expand\<rparr>,
      M_optimize \<mapsto> \<lparr>abstractmethod = False, mbody = Raise_NotImplementedError\<rparr>]"

definition abstractmethods :: "class_body \<Rightarrow> method_name list" where
  "abstractmethods c =
     filter (\<lambda>m. case c m of Some d \<Rightarrow> abstractmethod d | None \<Rightarrow> False)
       [M_expand, M_optimize, M_configure_optimization_passes]"

definition instantiate :: "class_body \<Rightarrow> error + class_body" where
  "instantiate c = (if abstractmethods c \<noteq> [] then Inl TypeError else Inr c)"

text \<open>
  Calling a method of an instance: the exception its body raises at once, or the
  implementation that control enters (\<open>Inr DTensorFallbackMode_expand\<close>: the function
  \<open>expand\<close> below).
\<close>

definition call_method :: "class_body \<Rightarrow> method_name \<Rightarrow> error + method_body" where
  "call_method c m =
     (case c m of
        None \<Rightarrow> Inl AttributeError
      | Some d \<Rightarrow>
          (case mbody d of
             Raise_NotImplementedError \<Rightarrow> Inl NotImplementedError
           | DTensorFallbackMode_expand \<Rightarrow> Inr DTensorFallbackMode_expand))"

subsection \<open>DTensorFallbackMode.expand\<close>

datatype placement = Shard nat | Replicate

record device_mesh =
  device_type :: string
  mesh_ranks :: "nat list"

record schema =
  mesh :: device_mesh
  placements :: "placement list"

text \<open>
  The instance: \<^verbatim>\<open>_placements_override: Dict[int, List[Placement]]\<close>, keyed by
  \<^verbatim>\<open>id(a)\<close>, and the list \<^verbatim>\<open>_optimization_passes\<close> of callables (object references),
  both empty after \<^verbatim>\<open>__init__\<close>.
\<close>

record fallback_mode =
  placements_override :: "ref \<rightharpoonup> placement list"
  optimization_passes :: "ref list"

definition DTensorFallbackMode_init :: fallback_mode where
  "DTensorFallbackMode_init = \<lparr>placements_override = Map.empty, optimization_passes = []\<rparr>"

text \<open>
  \<^verbatim>\<open>DeviceMesh("cuda", torch.arange(dist.get_world_size()).cuda())\<close>; the world size is
  what the process group reports, a parameter here.
\<close>

definition DeviceMesh_cuda :: "nat \<Rightarrow> device_mesh" where
  "DeviceMesh_cuda world_size = \<lparr>device_type = ''cuda'', mesh_ranks = [0..<world_size]\<rparr>"

text \<open>
  The three loops of \<^verbatim>\<open>expand\<close> (lines 66-95) append to \<^verbatim>\<open>inps\<close> and \<^verbatim>\<open>schemas\<close>.
  The first asserts that every flattened parameter or buffer is a tensor; the second and the
  third put \<^verbatim>\<open>torch.empty(0)\<close> in the place of a leaf that is not a tensor.
\<close>

fun expand_params_loop ::
  "schema \<Rightarrow> pyobj list \<Rightarrow> pyobj list \<times> schema list \<Rightarrow> error + pyobj list \<times> schema list" where
  "expand_params_loop rs [] acc = Inr acc"
| "expand_params_loop rs (p # ps) (inps, schemas) =
     (if \<not> is_Tensor p then Inl (AssertionError ''expecting Tensor but got another type'')
      else expand_params_loop rs ps (inps @ [p], schemas @ [rs]))"

fun expand_states_loop ::
  "schema \<Rightarrow> pyobj list \<Rightarrow> (pyobj list \<times> schema list) \<times> store
     \<Rightarrow> (pyobj list \<times> schema list) \<times> store" where
  "expand_states_loop rs [] acc = acc"
| "expand_states_loop rs (ob # os) ((inps, schemas), s) =
     (if is_Tensor ob then expand_states_loop rs os ((inps @ [ob], schemas @ [rs]), s)
      else case torch_empty0 s of (t, s') \<Rightarrow>
        expand_states_loop rs os ((inps @ [PTensor t], schemas @ [rs]), s'))"

fun expand_args_loop ::
  "fallback_mode \<Rightarrow> device_mesh \<Rightarrow> schema \<Rightarrow> pyobj list
     \<Rightarrow> (pyobj list \<times> schema list) \<times> store \<Rightarrow> (pyobj list \<times> schema list) \<times> store" where
  "expand_args_loop self m ss [] acc = acc"
| "expand_args_loop self m ss (a # as) ((inps, schemas), s) =
     (if is_Tensor a then
        (case placements_override self (obj_id a) of
           Some pl \<Rightarrow>
             expand_args_loop self m ss as
               ((inps @ [a], schemas @ [\<lparr>mesh = m, placements = pl\<rparr>]), s)
         | None \<Rightarrow> expand_args_loop self m ss as ((inps @ [a], schemas @ [ss]), s))
      else case torch_empty0 s of (t, s') \<Rightarrow>
        expand_args_loop self m ss as ((inps @ [PTensor t], schemas @ [ss]), s'))"

text \<open>
  Lines 57-95: the two sequences that line 97 hands to the converter, or the assertion
  error of the first loop. \<^verbatim>\<open>args\<close> is the tuple of positional arguments and
  \<^verbatim>\<open>kwargs\<close> the dictionary of keyword arguments.
\<close>

definition expand_inputs ::
  "fallback_mode \<Rightarrow> nat \<Rightarrow> pyobj pytree \<Rightarrow> pyobj pytree \<Rightarrow> pyobj pytree list
     \<Rightarrow> (string \<times> pyobj pytree) list \<Rightarrow> store
     \<Rightarrow> (error + pyobj list \<times> schema list) \<times> store" where
  "expand_inputs self world_size params_and_buffers named_states args kwargs s =
     (let flat_args = fst (tree_flatten (PList (args @ map snd kwargs)));
          m = DeviceMesh_cuda world_size;
          shard_schema = \<lparr>mesh = m, placements = [Shard 0]\<rparr>;
          replicate_schema = \<lparr>mesh = m, placements = [Replicate]\<rparr>
      in case expand_params_loop replicate_schema (fst (tree_flatten params_and_buffers)) ([], []) of
           Inl e \<Rightarrow> (Inl e, s)
         | Inr acc1 \<Rightarrow>
             (case expand_args_loop self m shard_schema flat_args
                     (expand_states_loop replicate_schema (fst (tree_flatten named_states)) (acc1, s)) of
                (acc3, s') \<Rightarrow> (Inr acc3, s')))"

text \<open>
  Line 97: \<^verbatim>\<open>return _convert_to_distributed(gm, inps, schemas, _allow_partial=False)\<close>.
  The converter (\<^verbatim>\<open>torch.distributed._spmd.distribute\<close>) is not among the source files: it
  is the parameter \<open>convert_to_distributed\<close>, a function of the graph, the two sequences and the
  flag that returns the distributed graph or raises.
\<close>

definition expand ::
  "('gm \<Rightarrow> pyobj list \<Rightarrow> schema list \<Rightarrow> bool \<Rightarrow> error + 'dg)
     \<Rightarrow> fallback_mode \<Rightarrow> nat \<Rightarrow> 'gm \<Rightarrow> pyobj pytree \<Rightarrow> pyobj pytree \<Rightarrow> pyobj pytree list
     \<Rightarrow> (string \<times> pyobj pytree) list \<Rightarrow> store \<Rightarrow> (error + 'dg) \<times> store" where
  "expand convert_to_distributed self world_size gm params_and_buffers named_states args kwargs s =
     (case expand_inputs self world_size params_and_buffers named_states args kwargs s of
        (Inl e, s') \<Rightarrow> (Inl e, s')
      | (Inr (inps, schemas), s') \<Rightarrow> (convert_to_distributed gm inps schemas False, s'))"

text \<open>The schema the third loop gives an argument (lines 80-95).\<close>

definition arg_schema :: "fallback_mode \<Rightarrow> device_mesh \<Rightarrow> pyobj \<Rightarrow> schema" where
  "arg_schema self m a =
     (if is_Tensor a then
        (case placements_override self (obj_id a) of
           Some pl \<Rightarrow> \<lparr>mesh = m, placements = pl\<rparr>
         | None \<Rightarrow> \<lparr>mesh = m, placements = [Shard 0]\<rparr>)
      else \<lparr>mesh = m, placements = [Shard 0]\<rparr>)"

section \<open>The training-step compiler (train_step.py)\<close>

subsection \<open>The optimizer and the world\<close>

text \<open>
  \<^verbatim>\<open>opt.state\<close> is a dictionary keyed by parameter objects (hashed by identity); its
  values are references to the state records. \<^verbatim>\<open>opt.param_groups\<close> is a list of
  references to the group dictionaries. The world holds the one optimizer of the module
  (\<^verbatim>\<open>mod.__optimizer_0\<close>, never \<^verbatim>\<open>None\<close>: the assertion of line 24 holds), the store,
  the global gradient mode (\<^verbatim>\<open>torch.set_grad_enabled\<close>) and, for every
  \<^verbatim>\<open>FakeTensorMode\<close> object, its flag \<^verbatim>\<open>allow_non_fake_inputs\<close>.
\<close>

record optimizer =
  state :: "(ref \<times> ref) list"
  param_groups :: "ref list"

record world =
  opt :: optimizer
  heap :: store
  grad_enabled :: bool
  allow_non_fake_inputs :: "ref \<Rightarrow> bool"

subsection \<open>State Rematerializer: _rematerialize_optimizer (lines 18-43)\<close>

text \<open>
  Lines 29-31: \<^verbatim>\<open>for n in named_states: opt.state[params[n]] = named_states[n]\<close>. A name
  that \<^verbatim>\<open>params\<close> lacks raises \<^verbatim>\<open>KeyError\<close>; the entries stored before it stay.
\<close>

fun rebind_states ::
  "(string \<times> ref) list \<Rightarrow> (string \<times> pyobj) list \<Rightarrow> (ref \<times> ref) list
     \<Rightarrow> error option \<times> (ref \<times> ref) list" where
  "rebind_states [] ps st = (None, st)"
| "rebind_states ((n, r) # ns) ps st =
     (case map_of ps n of
        None \<Rightarrow> (Some KeyError, st)
      | Some p \<Rightarrow> rebind_states ns ps (AList.update (obj_id p) r st))"

text \<open>What the generator holds across its \<^verbatim>\<open>yield\<close>.\<close>

record saved =
  orig_states :: "(ref \<times> ref) list"
  the_group :: ref
  orig_params :: "pyobj list"

text \<open>
  Lines 24-37, up to the \<^verbatim>\<open>yield\<close>. \<^verbatim>\<open>copy(opt.state)\<close> is a shallow copy: it holds the
  same record references. \<^verbatim>\<open>named_states\<close> is \<^verbatim>\<open>None\<close> or a dictionary from a
  parameter name to a state record; \<^verbatim>\<open>if named_states:\<close> is false for \<^verbatim>\<open>None\<close> and for
  the empty dictionary. \<^verbatim>\<open>opt.param_groups[0]\<close> raises \<^verbatim>\<open>IndexError\<close> on an empty list.
  An exception here is raised before the \<^verbatim>\<open>try\<close>: nothing is restored.
\<close>

definition rematerialize_enter ::
  "(string \<times> ref) list option \<Rightarrow> (string \<times> pyobj) list \<Rightarrow> world \<Rightarrow> (error + saved) \<times> world" where
  "rematerialize_enter named_states ps w =
     (let orig = state (opt w);
          (err, st) = (case named_states of
                         None \<Rightarrow> (None, orig)
                       | Some ns \<Rightarrow> if ns = [] then (None, orig) else rebind_states ns ps orig);
          w1 = w\<lparr>opt := (opt w)\<lparr>state := st\<rparr>\<rparr>
      in case err of
           Some e \<Rightarrow> (Inl e, w1)
         | None \<Rightarrow>
             (case param_groups (opt w1) of
                [] \<Rightarrow> (Inl IndexError, w1)
              | g # gs \<Rightarrow>
                  (Inr \<lparr>orig_states = orig, the_group = g,
                        orig_params = params (groups (heap w1) g)\<rparr>,
                   w1\<lparr>heap := (heap w1)\<lparr>groups :=
                        (groups (heap w1))(g := (groups (heap w1) g)\<lparr>params := map snd ps\<rparr>)\<rparr>\<rparr>)))"

text \<open>
  Lines 41-43, the \<^verbatim>\<open>finally\<close> block: the group object taken at entry gets its parameter
  list back, and \<^verbatim>\<open>opt.state.update(orig_states)\<close> stores the saved entries over the
  current dictionary.
\<close>

definition rematerialize_exit :: "saved \<Rightarrow> world \<Rightarrow> world" where
  "rematerialize_exit sv w =
     w\<lparr>heap := (heap w)\<lparr>groups :=
          (groups (heap w))(the_group sv := (groups (heap w) (the_group sv))\<lparr>params := orig_params sv\<rparr>)\<rparr>,
       opt := (opt w)\<lparr>state := dict_update (state (opt w)) (orig_states sv)\<rparr>\<rparr>"

text \<open>
  The scope \<^verbatim>\<open>with _rematerialize_optimizer(opt, named_states, params): body\<close>. The body
  returns a result or raises, and leaves a world behind either way; the \<^verbatim>\<open>finally\<close> block
  runs on both exits and the exception, if any, goes on to the caller.
\<close>

definition rematerialize_optimizer ::
  "(string \<times> ref) list option \<Rightarrow> (string \<times> pyobj) list
     \<Rightarrow> (world \<Rightarrow> (error + 'a) \<times> world) \<Rightarrow> world \<Rightarrow> (error + 'a) \<times> world" where
  "rematerialize_optimizer named_states ps body w =
     (case rematerialize_enter named_states ps w of
        (Inl e, w1) \<Rightarrow> (Inl e, w1)
      | (Inr sv, w1) \<Rightarrow> (case body w1 of (r, w2) \<Rightarrow> (r, rematerialize_exit sv w2)))"

subsection \<open>What the compiler is given from outside\<close>

text \<open>
  The captured graph module: its named parameters and buffers
  (\<^verbatim>\<open>named_parameters(remove_duplicate=False)\<close>, \<^verbatim>\<open>named_buffers(remove_duplicate=False)\<close>).
\<close>

record graph_module =
  named_parameters :: "(string \<times> pyobj) list"
  named_buffers :: "(string \<times> pyobj) list"

text \<open>
  Code that the file calls and that is not among the source files is a parameter:
  \<^item> \<open>forward\<close>: the call \<^verbatim>\<open>mod(*_user_args)\<close> of the captured training step, under
    \<^verbatim>\<open>stateless._reparametrize_module(mod, _params_dict)\<close>. It reads the whole world, it
    may change the optimizer and the store (the optimizer step fills \<^verbatim>\<open>opt.state\<close>), and it
    returns the output or raises.
  \<^item> \<open>from_tensor\<close>: \<^verbatim>\<open>fake_mode.from_tensor(x, static_shapes=False)\<close>.
  \<^item> \<open>capture\<close>: the graph that \<^verbatim>\<open>make_fx\<close> records from a traced call.
  \<^item> \<open>functionalize\<close>: \<^verbatim>\<open>make_fx(functionalize(retraced_f))(*full_fake_args)\<close>, the
    interpretation of the captured graph on the placeholders and its rewriting.
  \<^item> \<open>run_graph\<close>: calling the compiled graph module on a list of arguments.
\<close>

record 'g env =
  forward :: "world \<Rightarrow> (string \<times> pyobj) list \<Rightarrow> pyobj list
                \<Rightarrow> (error + pyobj pytree) \<times> optimizer \<times> store"
  from_tensor :: "ref \<Rightarrow> tensor \<Rightarrow> store \<Rightarrow> (error + tensor) \<times> store"
  capture :: "pyobj list \<Rightarrow> pyobj pytree \<Rightarrow> 'g"
  functionalize :: "'g \<Rightarrow> pyobj list \<Rightarrow> error + 'g"
  run_graph :: "'g \<Rightarrow> pyobj list \<Rightarrow> world \<Rightarrow> (error + pyobj pytree) \<times> world"

definition call_module ::
  "'g env \<Rightarrow> (string \<times> pyobj) list \<Rightarrow> pyobj list \<Rightarrow> world \<Rightarrow> (error + pyobj pytree) \<times> world" where
  "call_module env pd user_args w =
     (case forward env w pd user_args of (r, ob, h) \<Rightarrow> (r, w\<lparr>opt := ob, heap := h\<rparr>))"

text \<open>
  The body of \<^verbatim>\<open>torch._dynamo.utils.assert_no_fake_params_or_buffers\<close> is not among the
  source files. The model is what its name at the call site (line 63) says: it asserts that
  no buffer and no parameter of the module is a \<^verbatim>\<open>FakeTensor\<close>. The lines after the call
  agree: they take the parameters for materialized tensors (line 87 makes placeholders of
  them, line 204 hands them to the compiled graph at run time).
\<close>

definition assert_no_fake_params_or_buffers :: "graph_module \<Rightarrow> bool" where
  "assert_no_fake_params_or_buffers gm =
     list_all (\<lambda>nb. \<not> is_FakeTensor (snd nb)) (named_buffers gm @ named_parameters gm)"

text \<open>
  The attribute \<^verbatim>\<open>fake_mode\<close> of an object: \<open>None\<close> when it has none
  (\<^verbatim>\<open>AttributeError\<close>), \<open>Some None\<close> when it is not a \<^verbatim>\<open>FakeTensorMode\<close>.
\<close>

fun fake_mode_attr :: "pyobj \<Rightarrow> ref option option" where
  "fake_mode_attr (PTensor t) = (case kind t of Real \<Rightarrow> None | Fake m \<Rightarrow> Some m)"
| "fake_mode_attr (PObject r) = None"

subsection \<open>fakeify_inputs (lines 70-76)\<close>

fun fakeify_inputs ::
  "'g env \<Rightarrow> ref \<Rightarrow> pyobj list \<Rightarrow> store \<Rightarrow> (error + pyobj list) \<times> store" where
  "fakeify_inputs env fm [] s = (Inr [], s)"
| "fakeify_inputs env fm (PObject r # xs) s = (Inl (AssertionError []), s)"
| "fakeify_inputs env fm (PTensor t # xs) s =
     (case from_tensor env fm t s of
        (Inl e, s1) \<Rightarrow> (Inl e, s1)
      | (Inr ft, s1) \<Rightarrow>
          (case fakeify_inputs env fm xs s1 of
             (Inl e, s2) \<Rightarrow> (Inl e, s2)
           | (Inr fs, s2) \<Rightarrow> (Inr (PTensor ft # fs), s2)))"

subsection \<open>functional_call and functional_call_2 (lines 92-109, 158-177)\<close>

text \<open>
  \<^verbatim>\<open>tree_unflatten\<close> returns a nested value; the code uses it as the dictionary its
  descriptor describes. A dictionary from names to leaves:
\<close>

fun leaf_items :: "(string \<times> 'a pytree) list \<Rightarrow> error + (string \<times> 'a) list" where
  "leaf_items [] = Inr []"
| "leaf_items ((n, Leaf x) # kvs) =
     (case leaf_items kvs of Inl e \<Rightarrow> Inl e | Inr r \<Rightarrow> Inr ((n, x) # r))"
| "leaf_items ((n, t) # kvs) = Inl TypeError"

fun as_params_dict :: "'a pytree \<Rightarrow> error + (string \<times> 'a) list" where
  "as_params_dict (PDict kvs) = leaf_items kvs"
| "as_params_dict t = Inl TypeError"

text \<open>
  A dictionary from parameter names to state records: every record that
  \<^verbatim>\<open>tree_unflatten\<close> builds is a new dictionary object.
\<close>

fun alloc_state_records ::
  "(string \<times> pyobj pytree) list \<Rightarrow> store \<Rightarrow> (error + (string \<times> ref) list) \<times> store" where
  "alloc_state_records [] s = (Inr [], s)"
| "alloc_state_records ((n, t) # kvs) s =
     (case as_params_dict t of
        Inl e \<Rightarrow> (Inl e, s)
      | Inr items \<Rightarrow>
          (case alloc_state_records kvs
                  (s\<lparr>records := (records s)(next_ref s := items), next_ref := Suc (next_ref s)\<rparr>) of
             (Inl e, s2) \<Rightarrow> (Inl e, s2)
           | (Inr rs, s2) \<Rightarrow> (Inr ((n, next_ref s) # rs), s2)))"

fun as_named_states ::
  "pyobj pytree \<Rightarrow> store \<Rightarrow> (error + (string \<times> ref) list) \<times> store" where
  "as_named_states (PDict kvs) s = alloc_state_records kvs s"
| "as_named_states t s = (Inl TypeError, s)"

text \<open>Lines 105-109 and 173-177: \<^verbatim>\<open>isinstance(out, (tuple, list))\<close>.\<close>

fun is_tuple_or_list :: "'a pytree \<Rightarrow> bool" where
  "is_tuple_or_list (PTuple ts) = True"
| "is_tuple_or_list (PList ts) = True"
| "is_tuple_or_list t = False"

definition output_error :: error where
  "output_error =
     RuntimeError ''Graph output must be a tuple() to avoid pytree processing of the ouputs.''"

text \<open>
  \<^verbatim>\<open>functional_call(*lifted_args)\<close>, with the variables of the enclosing function it reads
  (\<^verbatim>\<open>params_len\<close>, \<^verbatim>\<open>params_spec\<close>, \<^verbatim>\<open>named_states_len\<close>) as arguments. No keyword
  argument is passed by either of its callers.
\<close>

definition functional_call ::
  "'g env \<Rightarrow> nat \<Rightarrow> treespec \<Rightarrow> nat \<Rightarrow> pyobj list \<Rightarrow> world \<Rightarrow> (error + pyobj pytree) \<times> world" where
  "functional_call env params_len params_spec named_states_len lifted_args w =
     (case tree_unflatten (take params_len lifted_args) params_spec of
        Inl e \<Rightarrow> (Inl e, w)
      | Inr t \<Rightarrow>
          (case as_params_dict t of
             Inl e \<Rightarrow> (Inl e, w)
           | Inr params_dict \<Rightarrow>
               (case rematerialize_optimizer None params_dict
                       (call_module env params_dict (drop (params_len + named_states_len) lifted_args)) w of
                  (Inl e, w') \<Rightarrow> (Inl e, w')
                | (Inr out, w') \<Rightarrow>
                    if \<not> is_tuple_or_list out then (Inl output_error, w') else (Inr out, w'))))"

definition functional_call_2 ::
  "'g env \<Rightarrow> nat \<Rightarrow> treespec \<Rightarrow> nat \<Rightarrow> treespec \<Rightarrow> pyobj list \<Rightarrow> world
     \<Rightarrow> (error + pyobj pytree) \<times> world" where
  "functional_call_2 env params_len params_spec named_states_len named_states_spec lifted_args w =
     (case tree_unflatten (take params_len lifted_args) params_spec of
        Inl e \<Rightarrow> (Inl e, w)
      | Inr t \<Rightarrow>
          (case as_params_dict t of
             Inl e \<Rightarrow> (Inl e, w)
           | Inr params_dict \<Rightarrow>
               (case tree_unflatten (take named_states_len (drop params_len lifted_args))
                       named_states_spec of
                  Inl e \<Rightarrow> (Inl e, w)
                | Inr nt \<Rightarrow>
                    (case as_named_states nt (heap w) of
                       (Inl e, h) \<Rightarrow> (Inl e, w\<lparr>heap := h\<rparr>)
                     | (Inr named_states_dict, h) \<Rightarrow>
                         (case rematerialize_optimizer (Some named_states_dict) params_dict
                                 (call_module env params_dict
                                    (drop (params_len + named_states_len) lifted_args))
                                 (w\<lparr>heap := h\<rparr>) of
                            (Inl e, w') \<Rightarrow> (Inl e, w')
                          | (Inr out, w') \<Rightarrow>
                              if \<not> is_tuple_or_list out then (Inl output_error, w')
                              else (Inr out, w'))))))"

subsection \<open>Warm-up: the optimizer states made real (lines 134-141)\<close>

text \<open>
  \<^verbatim>\<open>torch.zeros(shape, dtype=dtype, device=dev)\<close> allocates a new real tensor whose elements
  are all zero; \<^verbatim>\<open>t.zero_()\<close> (\<open>zero_inplace\<close>) overwrites the elements of \<open>t\<close> in place.
\<close>

definition torch_zeros :: "nat list \<Rightarrow> dtype \<Rightarrow> device \<Rightarrow> store \<Rightarrow> tensor \<times> store" where
  "torch_zeros shp dt dev s =
     (\<lparr>tid = next_ref s, shape = shp, dtype = dt, device = dev, kind = Real\<rparr>,
      s\<lparr>tdata := (tdata s)(next_ref s := replicate (prod_list shp) 0),
        next_ref := Suc (next_ref s)\<rparr>)"

definition zero_inplace :: "tensor \<Rightarrow> store \<Rightarrow> store" where
  "zero_inplace t s =
     (if kind t = Real
      then s\<lparr>tdata := (tdata s)(tid t := replicate (length (tdata s (tid t))) 0)\<rparr>
      else s)"

text \<open>
  One round of the inner loop, for the record \<open>r\<close> and the item \<^verbatim>\<open>(name, state)\<close> that
  the iteration yields. An object without \<^verbatim>\<open>zero_\<close> raises \<^verbatim>\<open>AttributeError\<close>.
\<close>

definition zero_state :: "device \<Rightarrow> ref \<Rightarrow> string \<times> pyobj \<Rightarrow> store \<Rightarrow> error option \<times> store" where
  "zero_state dev r item s =
     (let s1 = (case snd item of
                  PTensor t \<Rightarrow>
                    if kind t \<noteq> Real then
                      (case torch_zeros (shape t) (dtype t) dev s of
                         (z, s') \<Rightarrow>
                           s'\<lparr>records := (records s')(r := AList.update (fst item) (PTensor z) (records s' r))\<rparr>)
                    else s
                | PObject q \<Rightarrow> s)
      in case map_of (records s1 r) (fst item) of
           None \<Rightarrow> (Some KeyError, s1)
         | Some (PObject q) \<Rightarrow> (Some AttributeError, s1)
         | Some (PTensor t) \<Rightarrow> (None, zero_inplace t s1))"

fun zero_record_loop :: "device \<Rightarrow> ref \<Rightarrow> (string \<times> pyobj) list \<Rightarrow> store \<Rightarrow> error option \<times> store" where
  "zero_record_loop dev r [] s = (None, s)"
| "zero_record_loop dev r (item # items) s =
     (case zero_state dev r item s of
        (Some e, s1) \<Rightarrow> (Some e, s1)
      | (None, s1) \<Rightarrow> zero_record_loop dev r items s1)"

text \<open>The outer loop over \<^verbatim>\<open>opt.state.items()\<close>; the inner one runs over the items of the record.\<close>

fun zero_states_loop :: "device \<Rightarrow> (ref \<times> ref) list \<Rightarrow> store \<Rightarrow> error option \<times> store" where
  "zero_states_loop dev [] s = (None, s)"
| "zero_states_loop dev ((fake_param, r) # rest) s =
     (case zero_record_loop dev r (records s r) s of
        (Some e, s1) \<Rightarrow> (Some e, s1)
      | (None, s1) \<Rightarrow> zero_states_loop dev rest s1)"

subsection \<open>The named states (lines 143-151)\<close>

fun collect_named_states ::
  "(string \<times> pyobj) list \<Rightarrow> (ref \<times> ref) list \<Rightarrow> (string \<times> ref) list \<Rightarrow> (string \<times> ref) list" where
  "collect_named_states [] st acc = acc"
| "collect_named_states ((n, p) # rest) st acc =
     (case map_of st (obj_id p) of
        Some r \<Rightarrow> collect_named_states rest st (AList.update n r acc)
      | None \<Rightarrow> collect_named_states rest st acc)"

text \<open>The nested value that \<^verbatim>\<open>pytree.tree_flatten(named_states)\<close> walks through.\<close>

definition named_states_tree :: "store \<Rightarrow> (string \<times> ref) list \<Rightarrow> pyobj pytree" where
  "named_states_tree s ns =
     PDict (map (\<lambda>nr. (fst nr, PDict (map (\<lambda>kv. (fst kv, Leaf (snd kv))) (records s (snd nr))))) ns)"

subsection \<open>The compiled callable (lines 201-207)\<close>

record 'g compiled =
  params_flat :: "pyobj list"
  named_states_flat :: "pyobj list"
  functional_fx_g :: 'g

text \<open>
  \<^verbatim>\<open>with torch.no_grad():\<close> saves the gradient mode, disables it, and restores the saved
  mode on exit, also when the call raises.
\<close>

definition call_without_params ::
  "'g env \<Rightarrow> 'g compiled \<Rightarrow> pyobj list \<Rightarrow> world \<Rightarrow> (error + pyobj pytree) \<times> world" where
  "call_without_params env c runtime_args w =
     (case run_graph env (functional_fx_g c)
             (params_flat c @ named_states_flat c @ runtime_args)
             (w\<lparr>grad_enabled := False\<rparr>) of
        (r, w') \<Rightarrow> (r, w'\<lparr>grad_enabled := grad_enabled w\<rparr>))"

subsection \<open>_compile_fn (lines 60-207)\<close>

text \<open>
  Modelled from the spec: \<^verbatim>\<open>make_fx\<close> (\<^verbatim>\<open>torch.fx.experimental.proxy_tensor\<close>) is not
  among the source files. Sections 4.4 and 7 of the specification: tracing runs the
  functional wrapper once on the concatenated placeholder sequence and captures what it
  does into one graph; an error of the traced body is raised at trace time and reaches
  the caller unmodified.
\<close>

definition make_fx ::
  "'g env \<Rightarrow> (pyobj list \<Rightarrow> world \<Rightarrow> (error + pyobj pytree) \<times> world) \<Rightarrow> pyobj list \<Rightarrow> world
     \<Rightarrow> (error + 'g) \<times> world" where
  "make_fx env f args w =
     (case f args w of
        (Inl e, w') \<Rightarrow> (Inl e, w')
      | (Inr out, w') \<Rightarrow> (Inr (capture env args out), w'))"

text \<open>Lines 134-207: what follows a warm-up call that returned.\<close>

definition compile_after_warmup ::
  "'g env \<Rightarrow> ref \<Rightarrow> pyobj list \<Rightarrow> pyobj list \<Rightarrow> treespec \<Rightarrow> pyobj list \<Rightarrow> device
     \<Rightarrow> world \<Rightarrow> (error + 'g compiled) \<times> world" where
  "compile_after_warmup env fm fake_inputs pflat params_spec fake_params_flat dev w5 =
     (case zero_states_loop dev (state (opt w5)) (heap w5) of
        (Some e, h) \<Rightarrow> (Inl e, w5\<lparr>heap := h\<rparr>)
      | (None, h) \<Rightarrow>
          (let w6 = w5\<lparr>heap := h\<rparr> in
           case tree_unflatten fake_params_flat params_spec of
             Inl e \<Rightarrow> (Inl e, w6)
           | Inr t \<Rightarrow>
               (case as_params_dict t of
                  Inl e \<Rightarrow> (Inl e, w6)
                | Inr items \<Rightarrow>
                    (let named_states = collect_named_states items (state (opt w6)) [];
                         (nsflat, named_states_spec) =
                            tree_flatten (named_states_tree (heap w6) named_states)
                     in case fakeify_inputs env fm nsflat (heap w6) of
                          (Inl e, h') \<Rightarrow> (Inl e, w6\<lparr>heap := h'\<rparr>)
                        | (Inr fake_named_states_flat, h') \<Rightarrow>
                            (let full_fake_args =
                                   fake_params_flat @ fake_named_states_flat @ fake_inputs
                             in case make_fx env
                                       (functional_call_2 env (length pflat) params_spec
                                          (length nsflat) named_states_spec)
                                       full_fake_args (w6\<lparr>heap := h'\<rparr>) of
                                  (Inl e, w8) \<Rightarrow> (Inl e, w8)
                                | (Inr fx_g, w8) \<Rightarrow>
                                    (let w9 = w8\<lparr>grad_enabled := False\<rparr> in
                                     case functionalize env fx_g full_fake_args of
                                       Inl e \<Rightarrow> (Inl e, w9)
                                     | Inr g \<Rightarrow>
                                         (Inr \<lparr>params_flat = pflat, named_states_flat = nsflat,
                                               functional_fx_g = g\<rparr>, w9)))))))"

text \<open>
  Lines 81-84: \<^verbatim>\<open>params = {**dict(mod.named_parameters(...)), **dict(mod.named_buffers(...))}\<close>.
\<close>

definition module_params :: "graph_module \<Rightarrow> (string \<times> pyobj) list" where
  "module_params gm = dict_update (dict_of (named_parameters gm)) (dict_of (named_buffers gm))"

text \<open>Lines 85-131: the flattened parameters, their placeholders, and the warm-up call.\<close>

definition compile_warmup ::
  "'g env \<Rightarrow> graph_module \<Rightarrow> ref \<Rightarrow> pyobj list \<Rightarrow> world \<Rightarrow> (error + 'g compiled) \<times> world" where
  "compile_warmup env gm fm fake_inputs w1 =
     (let (pflat, params_spec) =
            tree_flatten (PDict (map (\<lambda>np. (fst np, Leaf (snd np))) (module_params gm)))
      in case fakeify_inputs env fm pflat (heap w1) of
           (Inl e, h) \<Rightarrow> (Inl e, w1\<lparr>heap := h\<rparr>)
         | (Inr fake_params_flat, h) \<Rightarrow>
             (case pflat of
                [] \<Rightarrow> (Inl IndexError, w1\<lparr>heap := h\<rparr>)
              | PObject q # rest \<Rightarrow> (Inl AttributeError, w1\<lparr>heap := h\<rparr>)
              | PTensor t0 # rest \<Rightarrow>
                  (case functional_call env (length pflat) params_spec 0
                          (fake_params_flat @ fake_inputs)
                          (w1\<lparr>heap := h,
                              allow_non_fake_inputs := (allow_non_fake_inputs w1)(fm := True)\<rparr>) of
                     (Inl e, w4) \<Rightarrow> (Inl e, w4)
                   | (Inr first_loss, w4) \<Rightarrow>
                       compile_after_warmup env fm fake_inputs pflat params_spec fake_params_flat
                         (device t0)
                         (w4\<lparr>allow_non_fake_inputs := (allow_non_fake_inputs w4)(fm := False)\<rparr>))))"

text \<open>
  Lines 61-68: the gradient mode is switched on, then the three checks. Reading
  \<^verbatim>\<open>fake_inputs[0].fake_mode\<close> of an object without that attribute raises
  \<^verbatim>\<open>AttributeError\<close>.
\<close>

definition compile_fn ::
  "'g env \<Rightarrow> graph_module \<Rightarrow> pyobj list \<Rightarrow> world \<Rightarrow> (error + 'g compiled) \<times> world" where
  "compile_fn env gm fake_inputs w =
     (let w1 = w\<lparr>grad_enabled := True\<rparr> in
      if \<not> assert_no_fake_params_or_buffers gm
      then (Inl (AssertionError ''Unexpected fake param or buffer''), w1)
      else if \<not> length fake_inputs > 0
      then (Inl (AssertionError ''Expected at least one input''), w1)
      else case fake_mode_attr (hd fake_inputs) of
             None \<Rightarrow> (Inl AttributeError, w1)
           | Some None \<Rightarrow>
               (Inl (AssertionError ''Expected a valid FakeTensorMode on dynamo inputs''), w1)
           | Some (Some fm) \<Rightarrow> compile_warmup env gm fm fake_inputs w1)"

section \<open>Example inputs\<close>

subsection \<open>For the fallback strategy\<close>

definition ex_tensor :: "ref \<Rightarrow> tensor" where
  "ex_tensor r = \<lparr>tid = r, shape = [2, 3], dtype = Float32, device = CUDA 0, kind = Real\<rparr>"

definition ex_store :: store where
  "ex_store = \<lparr>tdata = (\<lambda>r. []), records = (\<lambda>r. []), groups = (\<lambda>r. \<lparr>params = []\<rparr>),
               next_ref = 100\<rparr>"

text \<open>A strategy with an override registered for the argument whose identity is 4.\<close>

definition ex_mode :: fallback_mode where
  "ex_mode = DTensorFallbackMode_init\<lparr>placements_override := [4 \<mapsto> [Replicate]]\<rparr>"

definition ex_params :: "pyobj pytree" where
  "ex_params = PDict [(''weight'', Leaf (PTensor (ex_tensor 1)))]"

definition ex_states :: "pyobj pytree" where
  "ex_states = PDict [(''weight'',
      PDict [(''exp_avg'', Leaf (PTensor (ex_tensor 2))), (''step'', Leaf (PObject 9))])]"

definition ex_args :: "pyobj pytree list" where
  "ex_args = [Leaf (PTensor (ex_tensor 3)), Leaf (PTensor (ex_tensor 4)), Leaf (PObject 8)]"

text \<open>A converter that refuses whenever partial conversion is not allowed.\<close>

definition ex_converter :: "nat \<Rightarrow> pyobj list \<Rightarrow> schema list \<Rightarrow> bool \<Rightarrow> error + nat" where
  "ex_converter gm inps schemas allow_partial =
     (if allow_partial then Inr gm else Inl (OtherError ''cannot place''))"

text \<open>A strategy class that fills in \<^verbatim>\<open>expand\<close> and nothing else.\<close>

definition only_expand :: class_body where
  "only_expand = derive_class ParallelMode
     [M_expand \<mapsto> \<lparr>abstractmethod = False, mbody = DTensorFallbackMode_expand\<rparr>]"

subsection \<open>For the State Rematerializer\<close>

text \<open>
  An optimizer with one parameter group (the object 50, holding the parameter 1) and no
  state yet; the same optimizer with a state record (the object 5) for that parameter; a
  placeholder parameter; a body that raises at once; and a body that empties the state map
  and the parameter list before it raises.
\<close>

definition cex_world :: world where
  "cex_world =
     \<lparr>opt = \<lparr>state = [], param_groups = [50]\<rparr>,
      heap = ex_store\<lparr>groups := (groups ex_store)(50 := \<lparr>params = [PTensor (ex_tensor 1)]\<rparr>)\<rparr>,
      grad_enabled = True,
      allow_non_fake_inputs = (\<lambda>m. False)\<rparr>"

definition ex_placeholder :: "ref \<Rightarrow> tensor" where
  "ex_placeholder r = \<lparr>tid = r, shape = [2, 3], dtype = Float32, device = CUDA 0, kind = Fake (Some 30)\<rparr>"

definition raising_body :: "world \<Rightarrow> (error + unit) \<times> world" where
  "raising_body w = (Inl (OtherError ''raised in the body''), w)"

definition populated_world :: world where
  "populated_world = cex_world\<lparr>opt := (opt cex_world)\<lparr>state := [(1, 5)]\<rparr>\<rparr>"

definition clearing_body :: "world \<Rightarrow> (error + unit) \<times> world" where
  "clearing_body w =
     (Inl (OtherError ''raised in the body''),
      w\<lparr>opt := (opt w)\<lparr>state := []\<rparr>,
        heap := (heap w)\<lparr>groups := (groups (heap w))(50 := \<lparr>params = []\<rparr>)\<rparr>\<rparr>)"

subsection \<open>For the compiler\<close>

text \<open>
  A training step in the manner of SGD with momentum, returning \<open>out\<close>: when the first
  parameter of the first group has no state yet, the optimizer step creates a state record
  for it with one tensor of the parameter's kind, shape, dtype and device.
\<close>

definition ex_forward ::
  "pyobj pytree \<Rightarrow> world \<Rightarrow> (string \<times> pyobj) list \<Rightarrow> pyobj list
     \<Rightarrow> (error + pyobj pytree) \<times> optimizer \<times> store" where
  "ex_forward out w pd a =
     (case params (groups (heap w) (hd (param_groups (opt w)))) of
        PTensor p # rest \<Rightarrow>
          (case map_of (state (opt w)) (tid p) of
             Some r \<Rightarrow> (Inr out, opt w, heap w)
           | None \<Rightarrow>
               (Inr out,
                (opt w)\<lparr>state := AList.update (tid p) (next_ref (heap w)) (state (opt w))\<rparr>,
                (heap w)\<lparr>records := (records (heap w))
                            (next_ref (heap w) :=
                               [(''momentum_buffer'', PTensor (p\<lparr>tid := Suc (next_ref (heap w))\<rparr>))]),
                         next_ref := Suc (Suc (next_ref (heap w)))\<rparr>))
      | other \<Rightarrow> (Inr out, opt w, heap w))"

definition ex_env :: "pyobj pytree \<Rightarrow> nat env" where
  "ex_env out =
     \<lparr>forward = ex_forward out,
      from_tensor = (\<lambda>fm t s. (Inr (t\<lparr>tid := next_ref s, kind := Fake (Some fm)\<rparr>),
                                s\<lparr>next_ref := Suc (next_ref s)\<rparr>)),
      capture = (\<lambda>args res. 0),
      functionalize = (\<lambda>g args. Inr g),
      run_graph = (\<lambda>g args w. (Inr (PTuple []), w))\<rparr>"

text \<open>A module with one materialized parameter, and one with a placeholder for a parameter.\<close>

definition ex_module :: graph_module where
  "ex_module = \<lparr>named_parameters = [(''weight'', PTensor (ex_tensor 1))], named_buffers = []\<rparr>"

definition ex_fake_module :: graph_module where
  "ex_fake_module =
     \<lparr>named_parameters = [(''weight'', PTensor (ex_placeholder 1))], named_buffers = []\<rparr>"

definition ex_fake_inputs :: "pyobj list" where
  "ex_fake_inputs =
     [PTensor \<lparr>tid = 20, shape = [4, 3], dtype = Float32, device = CUDA 0, kind = Fake (Some 30)\<rparr>]"

text \<open>Outputs of a training step: a bare tensor, a tuple of a tensor, a tuple within a tuple.\<close>

definition ex_loss :: pyobj where
  "ex_loss = PTensor \<lparr>tid = 40, shape = [], dtype = Float32, device = CUDA 0, kind = Fake (Some 30)\<rparr>"

definition bare_output :: "pyobj pytree" where
  "bare_output = Leaf ex_loss"

definition tuple_output :: "pyobj pytree" where
  "tuple_output = PTuple [Leaf ex_loss]"

definition nested_output :: "pyobj pytree" where
  "nested_output = PTuple [PTuple [Leaf ex_loss], Leaf ex_loss]"

text \<open>
  A flat sequence, in the words of the specification: a tuple or a list, none of whose
  elements is a container again.
\<close>

fun is_leaf :: "'a pytree \<Rightarrow> bool" where
  "is_leaf (Leaf x) = True"
| "is_leaf t = False"

fun flat_sequence :: "'a pytree \<Rightarrow> bool" where
  "flat_sequence (PTuple ts) = list_all is_leaf ts"
| "flat_sequence (PList ts) = list_all is_leaf ts"
| "flat_sequence t = False"

text \<open>The world of the examples with the flag of the mode 30 set before the compiler runs.\<close>

definition permissive_world :: world where
  "permissive_world = cex_world\<lparr>allow_non_fake_inputs := (\<lambda>m. m = 30)\<rparr>"

subsection \<open>For the compiled callable\<close>

text \<open>
  A compiled graph that adds one to every element of its first argument in place. Under
  gradient tracking it does nothing of the kind: the strict one raises, the other one
  returns at once.
\<close>

definition ex_run_graph ::
  "bool \<Rightarrow> nat \<Rightarrow> pyobj list \<Rightarrow> world \<Rightarrow> (error + pyobj pytree) \<times> world" where
  "ex_run_graph strict g args w =
     (if grad_enabled w then
        (if strict then (Inl (OtherError ''called under gradient tracking''), w)
         else (Inr (PTuple []), w))
      else
        (Inr (PTuple []),
         w\<lparr>heap := (heap w)\<lparr>tdata := (tdata (heap w))
               (obj_id (hd args) := map (\<lambda>x. x + 1) (tdata (heap w) (obj_id (hd args))))\<rparr>\<rparr>))"

definition ex_graph_env :: "bool \<Rightarrow> nat env" where
  "ex_graph_env strict = (ex_env tuple_output)\<lparr>run_graph := ex_run_graph strict\<rparr>"

definition ex_compiled :: "nat compiled" where
  "ex_compiled = \<lparr>params_flat = [PTensor (ex_tensor 1)], named_states_flat = [], functional_fx_g = 0\<rparr>"

definition ex_run_world :: world where
  "ex_run_world = cex_world\<lparr>heap := (heap cex_world)\<lparr>tdata := (tdata (heap cex_world))(1 := [0, 0])\<rparr>\<rparr>"

section \<open>Properties of the Structure Flattener\<close>

lemma length_tree_flatten:
  "length (fst (tree_flatten t)) = num_leaves (snd (tree_flatten t))"
proof (induction t)
  case (Leaf x)
  show ?case by simp
next
  case (PDict kvs)
  have "\<And>kv. kv \<in> set kvs \<Longrightarrow>
      length (fst (tree_flatten (snd kv))) = num_leaves (snd (tree_flatten (snd kv)))"
    using PDict.IH by (auto simp: snds.simps)
  then show ?case
    by (simp add: length_concat comp_def cong: map_cong)
next
  case (PList ts)
  then show ?case
    by (simp add: length_concat comp_def cong: map_cong)
next
  case (PTuple ts)
  then show ?case
    by (simp add: length_concat comp_def cong: map_cong)
qed

lemma unflatten_children_flatten:
  assumes "\<And>t. t \<in> set ts \<Longrightarrow>
             tree_unflatten (fst (tree_flatten t)) (snd (tree_flatten t)) = Inr t"
  shows "unflatten_children (concat (map (\<lambda>t. fst (tree_flatten t)) ts))
           (map (\<lambda>t. snd (tree_flatten t)) ts) = Inr ts"
  using assms
proof (induction ts)
  case Nil
  show ?case by simp
next
  case (Cons t ts)
  have here: "tree_unflatten (fst (tree_flatten t)) (snd (tree_flatten t)) = Inr t"
    using Cons.prems by simp
  have rest: "unflatten_children (concat (map (\<lambda>t. fst (tree_flatten t)) ts))
           (map (\<lambda>t. snd (tree_flatten t)) ts) = Inr ts"
    using Cons.IH Cons.prems by simp
  show ?case
    by (simp add: length_tree_flatten [symmetric] here rest)
qed

lemma tree_unflatten_flatten:
  "tree_unflatten (fst (tree_flatten t)) (snd (tree_flatten t)) = Inr t"
proof (induction t)
  case (Leaf x)
  show ?case by simp
next
  case (PDict kvs)
  have ih: "\<And>t. t \<in> set (map snd kvs) \<Longrightarrow>
      tree_unflatten (fst (tree_flatten t)) (snd (tree_flatten t)) = Inr t"
    using PDict.IH by (auto simp: snds.simps)
  have ch: "unflatten_children (concat (map (\<lambda>t. fst (tree_flatten t)) (map snd kvs)))
           (map (\<lambda>t. snd (tree_flatten t)) (map snd kvs)) = Inr (map snd kvs)"
    using ih by (rule unflatten_children_flatten)
  have len: "length (fst (tree_flatten (PDict kvs))) = num_leaves (snd (tree_flatten (PDict kvs)))"
    by (rule length_tree_flatten)
  have z: "zip (map fst kvs) (map snd kvs) = kvs"
    by (simp add: zip_map_fst_snd)
  show ?case
    using ch len z by (simp add: comp_def)
next
  case (PList ts)
  have ch: "unflatten_children (concat (map (\<lambda>t. fst (tree_flatten t)) ts))
           (map (\<lambda>t. snd (tree_flatten t)) ts) = Inr ts"
    using PList.IH by (rule unflatten_children_flatten)
  have len: "length (fst (tree_flatten (PList ts))) = num_leaves (snd (tree_flatten (PList ts)))"
    by (rule length_tree_flatten)
  show ?case using ch len by simp
next
  case (PTuple ts)
  have ch: "unflatten_children (concat (map (\<lambda>t. fst (tree_flatten t)) ts))
           (map (\<lambda>t. snd (tree_flatten t)) ts) = Inr ts"
    using PTuple.IH by (rule unflatten_children_flatten)
  have len: "length (fst (tree_flatten (PTuple ts))) = num_leaves (snd (tree_flatten (PTuple ts)))"
    by (rule length_tree_flatten)
  show ?case using ch len by simp
qed

text \<open>
  Claim C9. For every nested parameter or state mapping \<open>x\<close>, flattening \<open>x\<close> to a sequence
  and a descriptor and unflattening that sequence with the same descriptor succeeds and
  returns \<open>x\<close> itself: the same nesting, the same keys in the same order, the same leaves.
\<close>

theorem flatten_unflatten_roundtrip:
  "(case tree_flatten x of (leaves, spec) \<Rightarrow> tree_unflatten leaves spec) = Inr x"
  using tree_unflatten_flatten [of x] by (simp add: case_prod_beta)

theorem flatten_unflatten_roundtrip_witness:
  "(case tree_flatten (PDict [(''w'', Leaf (1::nat)), (''b'', PDict [(''m'', Leaf 2)])])
      of (leaves, spec) \<Rightarrow> tree_unflatten leaves spec)
   = Inr (PDict [(''w'', Leaf 1), (''b'', PDict [(''m'', Leaf 2)])])"
  by (rule flatten_unflatten_roundtrip)

section \<open>Properties of the fallback strategy\<close>

lemma expand_params_loop_Inr:
  "expand_params_loop rs ps (inps, schemas) = Inr (inps', schemas') \<Longrightarrow>
     inps' = inps @ ps \<and> schemas' = schemas @ replicate (length ps) rs \<and> (\<forall>p \<in> set ps. is_Tensor p)"
proof (induction ps arbitrary: inps schemas)
  case Nil
  then show ?case by simp
next
  case (Cons p ps)
  from Cons.prems have t: "is_Tensor p"
    by (simp split: if_splits)
  with Cons.prems have "expand_params_loop rs ps (inps @ [p], schemas @ [rs]) = Inr (inps', schemas')"
    by simp
  from Cons.IH [OF this] t show ?case
    by (simp add: replicate_app_Cons_same)
qed

lemma expand_params_loop_total:
  "\<forall>p \<in> set ps. is_Tensor p \<Longrightarrow> \<exists>r. expand_params_loop rs ps acc = Inr r"
  by (induction ps arbitrary: acc) (auto split: prod.splits)

lemma expand_states_loop_spec:
  "expand_states_loop rs os ((inps, schemas), s) = ((inps', schemas'), s') \<Longrightarrow>
     \<exists>xs. inps' = inps @ xs \<and> length xs = length os
        \<and> schemas' = schemas @ replicate (length os) rs
        \<and> (\<forall>i < length os. is_Tensor (os ! i) \<longrightarrow> xs ! i = os ! i)"
proof (induction os arbitrary: inps schemas s)
  case Nil
  then show ?case by simp
next
  case (Cons ob os)
  show ?case
  proof (cases "is_Tensor ob")
    case True
    with Cons.prems have "expand_states_loop rs os ((inps @ [ob], schemas @ [rs]), s) = ((inps', schemas'), s')"
      by simp
    from Cons.IH [OF this] obtain xs where xs: "inps' = (inps @ [ob]) @ xs" "length xs = length os"
      "schemas' = (schemas @ [rs]) @ replicate (length os) rs"
      "\<forall>i < length os. is_Tensor (os ! i) \<longrightarrow> xs ! i = os ! i" by blast
    have "\<forall>i < length (ob # os). is_Tensor ((ob # os) ! i) \<longrightarrow> (ob # xs) ! i = (ob # os) ! i"
      using xs(4) by (auto simp: nth_Cons split: nat.splits)
    with xs show ?thesis
      by (intro exI [of _ "ob # xs"]) (simp add: replicate_app_Cons_same)
  next
    case False
    obtain t s1 where e: "torch_empty0 s = (t, s1)" by (cases "torch_empty0 s")
    with False Cons.prems have "expand_states_loop rs os ((inps @ [PTensor t], schemas @ [rs]), s1) = ((inps', schemas'), s')"
      by simp
    from Cons.IH [OF this] obtain xs where xs: "inps' = (inps @ [PTensor t]) @ xs" "length xs = length os"
      "schemas' = (schemas @ [rs]) @ replicate (length os) rs"
      "\<forall>i < length os. is_Tensor (os ! i) \<longrightarrow> xs ! i = os ! i" by blast
    have "\<forall>i < length (ob # os). is_Tensor ((ob # os) ! i) \<longrightarrow> (PTensor t # xs) ! i = (ob # os) ! i"
      using xs(4) False by (auto simp: nth_Cons split: nat.splits)
    with xs show ?thesis
      by (intro exI [of _ "PTensor t # xs"]) (simp add: replicate_app_Cons_same)
  qed
qed

lemma expand_args_loop_spec:
  "expand_args_loop self m \<lparr>mesh = m, placements = [Shard 0]\<rparr> as ((inps, schemas), s) = ((inps', schemas'), s') \<Longrightarrow>
     \<exists>xs. inps' = inps @ xs \<and> length xs = length as
        \<and> schemas' = schemas @ map (arg_schema self m) as
        \<and> (\<forall>i < length as. is_Tensor (as ! i) \<longrightarrow> xs ! i = as ! i)"
proof (induction as arbitrary: inps schemas s)
  case Nil
  then show ?case by simp
next
  case (Cons a as)
  let ?ss = "\<lparr>mesh = m, placements = [Shard 0]\<rparr>"
  obtain x sc s1 where step: "expand_args_loop self m ?ss as ((inps @ [x], schemas @ [sc]), s1) = ((inps', schemas'), s')"
    and sc: "sc = arg_schema self m a" and x: "is_Tensor a \<longrightarrow> x = a"
    using Cons.prems
    by (cases "is_Tensor a"; cases "placements_override self (obj_id a)"; cases "torch_empty0 s")
       (auto simp: arg_schema_def)
  from Cons.IH [OF step] obtain xs where xs: "inps' = (inps @ [x]) @ xs" "length xs = length as"
      "schemas' = (schemas @ [sc]) @ map (arg_schema self m) as"
      "\<forall>i < length as. is_Tensor (as ! i) \<longrightarrow> xs ! i = as ! i" by blast
  have "\<forall>i < length (a # as). is_Tensor ((a # as) ! i) \<longrightarrow> (x # xs) ! i = (a # as) ! i"
    using xs(4) x by (auto simp: nth_Cons split: nat.splits)
  with xs sc show ?case
    by (intro exI [of _ "x # xs"]) simp
qed


lemma expand_inputs_succeeds:
  assumes "\<forall>p \<in> set (fst (tree_flatten params_and_buffers)). is_Tensor p"
  shows "\<exists>r s'. expand_inputs self world_size params_and_buffers named_states args kwargs s
           = (Inr r, s')"
proof -
  obtain r where "expand_params_loop \<lparr>mesh = DeviceMesh_cuda world_size, placements = [Replicate]\<rparr>
      (fst (tree_flatten params_and_buffers)) ([], []) = Inr r"
    using expand_params_loop_total [OF assms] by blast
  then show ?thesis
    by (simp add: expand_inputs_def Let_def split: prod.splits)
qed

text \<open>
  Claim C5. Let \<open>P\<close>, \<open>S\<close> and \<open>A\<close> be the numbers of flattened parameter/buffer leaves,
  named-state leaves and runtime-argument leaves (positional arguments, then the values of
  the keyword arguments). Whenever \<^verbatim>\<open>expand\<close> reaches its call of the converter, the value
  sequence and the schema sequence it passes have \<open>P + S + A\<close> entries each, every schema is
  on the device mesh of the call, the first \<open>P\<close> values are the parameters, every parameter and
  state position has the placement \<open>[Replicate]\<close>, a state leaf that is a tensor is passed
  as it is, and a tensor-valued argument is passed as it is with the placement registered in
  \<^verbatim>\<open>_placements_override\<close> under its identity, or \<open>[Shard 0]\<close> when none is registered.
  (\<^verbatim>\<open>expand\<close> reaches the call exactly when every parameter/buffer leaf is a tensor:
  \<open>expand_params_loop_Inr\<close>, \<open>expand_inputs_succeeds\<close>.)
\<close>

theorem expand_placement_invariant:
  assumes ok: "expand_inputs self world_size params_and_buffers named_states args kwargs s
                 = (Inr (inps, schemas), s')"
  shows "(let ps = fst (tree_flatten params_and_buffers);
              sts = fst (tree_flatten named_states);
              as = fst (tree_flatten (PList (args @ map snd kwargs)));
              P = length ps; S = length sts; A = length as
          in length inps = P + S + A \<and> length schemas = P + S + A
           \<and> (\<forall>i < P + S + A. mesh (schemas ! i) = DeviceMesh_cuda world_size)
           \<and> (\<forall>i < P. inps ! i = ps ! i \<and> placements (schemas ! i) = [Replicate])
           \<and> (\<forall>i < S. placements (schemas ! (P + i)) = [Replicate]
                 \<and> (is_Tensor (sts ! i) \<longrightarrow> inps ! (P + i) = sts ! i))
           \<and> (\<forall>i < A. is_Tensor (as ! i) \<longrightarrow>
                 inps ! (P + S + i) = as ! i
                 \<and> placements (schemas ! (P + S + i)) =
                     (case placements_override self (obj_id (as ! i)) of
                        Some pl \<Rightarrow> pl
                      | None \<Rightarrow> [Shard 0])))"
proof -
  define ps where "ps = fst (tree_flatten params_and_buffers)"
  define sts where "sts = fst (tree_flatten named_states)"
  define as where "as = fst (tree_flatten (PList (args @ map snd kwargs)))"
  define m where "m = DeviceMesh_cuda world_size"
  define rs where "rs = \<lparr>mesh = m, placements = [Replicate]\<rparr>"
  define ss where "ss = \<lparr>mesh = m, placements = [Shard 0]\<rparr>"
  obtain acc1 where a1: "expand_params_loop rs ps ([], []) = Inr acc1"
    and rest: "expand_args_loop self m ss as (expand_states_loop rs sts (acc1, s))
                 = ((inps, schemas), s')"
    using ok
    by (auto simp: expand_inputs_def Let_def ps_def sts_def as_def m_def rs_def ss_def
             split: sum.splits prod.splits)
  obtain i1 sc1 where acc1: "acc1 = (i1, sc1)" by (cases acc1)
  from a1 acc1 have p1: "i1 = ps" "sc1 = replicate (length ps) rs"
    using expand_params_loop_Inr [of rs ps "[]" "[]" i1 sc1] by simp_all
  obtain i2 sc2 s2 where st: "expand_states_loop rs sts ((i1, sc1), s) = ((i2, sc2), s2)"
    by (metis surj_pair)
  from expand_states_loop_spec [OF st] obtain xs where xs:
    "i2 = i1 @ xs" "length xs = length sts" "sc2 = sc1 @ replicate (length sts) rs"
    "\<forall>i < length sts. is_Tensor (sts ! i) \<longrightarrow> xs ! i = sts ! i" by blast
  from rest acc1 st have "expand_args_loop self m \<lparr>mesh = m, placements = [Shard 0]\<rparr> as ((i2, sc2), s2)
      = ((inps, schemas), s')"
    by (simp add: ss_def)
  from expand_args_loop_spec [OF this] obtain ys where ys:
    "inps = i2 @ ys" "length ys = length as" "schemas = sc2 @ map (arg_schema self m) as"
    "\<forall>i < length as. is_Tensor (as ! i) \<longrightarrow> ys ! i = as ! i" by blast
  have inps: "inps = ps @ xs @ ys"
    using ys(1) xs(1) p1(1) by simp
  have schemas: "schemas = replicate (length ps) rs @ replicate (length sts) rs @ map (arg_schema self m) as"
    using ys(3) xs(3) p1(2) by simp
  have len: "length inps = length ps + length sts + length as"
            "length schemas = length ps + length sts + length as"
    using inps schemas xs(2) ys(2) by simp_all
  have mesh_arg: "\<And>a. mesh (arg_schema self m a) = m"
    by (simp add: arg_schema_def split: option.splits)
  have meshes: "\<forall>i < length ps + length sts + length as. mesh (schemas ! i) = m"
  proof (intro allI impI)
    fix i assume "i < length ps + length sts + length as"
    then have "schemas ! i \<in> set schemas"
      using len(2) by simp
    then show "mesh (schemas ! i) = m"
      using schemas mesh_arg by (auto simp: rs_def)
  qed
  have params: "\<forall>i < length ps. inps ! i = ps ! i \<and> placements (schemas ! i) = [Replicate]"
    using inps schemas by (simp add: nth_append rs_def)
  have states: "\<forall>i < length sts. placements (schemas ! (length ps + i)) = [Replicate]
                 \<and> (is_Tensor (sts ! i) \<longrightarrow> inps ! (length ps + i) = sts ! i)"
    using inps schemas xs(2) xs(4) by (simp add: nth_append rs_def)
  have args: "\<forall>i < length as. is_Tensor (as ! i) \<longrightarrow>
                 inps ! (length ps + length sts + i) = as ! i
                 \<and> placements (schemas ! (length ps + length sts + i)) =
                     (case placements_override self (obj_id (as ! i)) of
                        Some pl \<Rightarrow> pl
                      | None \<Rightarrow> [Shard 0])"
  proof (intro allI impI)
    fix i assume i: "i < length as" and t: "is_Tensor (as ! i)"
    have a: "inps ! (length ps + length sts + i) = ys ! i"
      using inps xs(2) by (simp add: nth_append)
    have b: "schemas ! (length ps + length sts + i) = arg_schema self m (as ! i)"
      using schemas i by (simp add: nth_append)
    show "inps ! (length ps + length sts + i) = as ! i
                 \<and> placements (schemas ! (length ps + length sts + i)) =
                     (case placements_override self (obj_id (as ! i)) of
                        Some pl \<Rightarrow> pl
                      | None \<Rightarrow> [Shard 0])"
      using a b ys(4) i t by (simp add: arg_schema_def split: option.splits)
  qed
  show ?thesis
    unfolding Let_def
    using len meshes params states args
    unfolding ps_def sts_def as_def m_def by blast
qed


theorem expand_placement_invariant_witness:
  "fst (expand_inputs ex_mode 2 ex_params ex_states ex_args [] ex_store)
     = Inr ([PTensor (ex_tensor 1), PTensor (ex_tensor 2), PTensor (torch_empty_at 100),
             PTensor (ex_tensor 3), PTensor (ex_tensor 4), PTensor (torch_empty_at 101)],
            [\<lparr>mesh = DeviceMesh_cuda 2, placements = [Replicate]\<rparr>,
             \<lparr>mesh = DeviceMesh_cuda 2, placements = [Replicate]\<rparr>,
             \<lparr>mesh = DeviceMesh_cuda 2, placements = [Replicate]\<rparr>,
             \<lparr>mesh = DeviceMesh_cuda 2, placements = [Shard 0]\<rparr>,
             \<lparr>mesh = DeviceMesh_cuda 2, placements = [Replicate]\<rparr>,
             \<lparr>mesh = DeviceMesh_cuda 2, placements = [Shard 0]\<rparr>])
   \<and> length (fst (tree_flatten ex_params)) + length (fst (tree_flatten ex_states))
       + length (fst (tree_flatten (PList (ex_args @ map snd ([] :: (string \<times> pyobj pytree) list))))) = 6"
proof -
  let ?inps = "[PTensor (ex_tensor 1), PTensor (ex_tensor 2), PTensor (torch_empty_at 100),
             PTensor (ex_tensor 3), PTensor (ex_tensor 4), PTensor (torch_empty_at 101)]"
  let ?schemas = "[\<lparr>mesh = DeviceMesh_cuda 2, placements = [Replicate]\<rparr>,
             \<lparr>mesh = DeviceMesh_cuda 2, placements = [Replicate]\<rparr>,
             \<lparr>mesh = DeviceMesh_cuda 2, placements = [Replicate]\<rparr>,
             \<lparr>mesh = DeviceMesh_cuda 2, placements = [Shard 0]\<rparr>,
             \<lparr>mesh = DeviceMesh_cuda 2, placements = [Replicate]\<rparr>,
             \<lparr>mesh = DeviceMesh_cuda 2, placements = [Shard 0]\<rparr>]"
  have run: "expand_inputs ex_mode 2 ex_params ex_states ex_args [] ex_store
      = (Inr (?inps, ?schemas), snd (expand_inputs ex_mode 2 ex_params ex_states ex_args [] ex_store))"
    by (simp add: prod_eq_iff expand_inputs_def Let_def ex_mode_def ex_params_def ex_states_def
          ex_args_def ex_store_def ex_tensor_def torch_empty0_def torch_empty_at_def
          DTensorFallbackMode_init_def)
  from expand_placement_invariant [OF run, unfolded Let_def]
  have "length ?inps = length (fst (tree_flatten ex_params))
      + length (fst (tree_flatten ex_states))
      + length (fst (tree_flatten (PList (ex_args @ map snd ([] :: (string \<times> pyobj pytree) list)))))"
    by (rule conjunct1)
  then have count: "length (fst (tree_flatten ex_params))
      + length (fst (tree_flatten ex_states))
      + length (fst (tree_flatten (PList (ex_args @ map snd ([] :: (string \<times> pyobj pytree) list))))) = 6"
    by simp
  have "fst (expand_inputs ex_mode 2 ex_params ex_states ex_args [] ex_store) = Inr (?inps, ?schemas)"
    using run by (metis fst_conv)
  with count show ?thesis
    by (rule conjI [rotated])
qed


text \<open>
  Claim C7. \<^verbatim>\<open>expand\<close> calls the converter once, on the graph and the two sequences it
  built, with \<^verbatim>\<open>_allow_partial=False\<close>, and returns what that call returns: a failure of
  the converter is the failure of \<^verbatim>\<open>expand\<close> (no handler, no retry, no other placement
  tried), and what the converter would do with partial conversion allowed has no influence
  on \<^verbatim>\<open>expand\<close>.
\<close>

theorem expand_partial_disallowed:
  assumes ok: "expand_inputs self world_size params_and_buffers named_states args kwargs s
                 = (Inr (inps, schemas), s')"
  shows "expand conv self world_size gm params_and_buffers named_states args kwargs s
           = (conv gm inps schemas False, s')
       \<and> (\<forall>e. conv gm inps schemas False = Inl e \<longrightarrow>
              fst (expand conv self world_size gm params_and_buffers named_states args kwargs s)
                = Inl e)
       \<and> (\<forall>conv'. (\<forall>g i sc. conv' g i sc False = conv g i sc False) \<longrightarrow>
              expand conv' self world_size gm params_and_buffers named_states args kwargs s
                = expand conv self world_size gm params_and_buffers named_states args kwargs s)"
  using ok by (simp add: expand_def)

theorem expand_partial_disallowed_witness:
  "fst (expand ex_converter ex_mode 2 (7::nat) ex_params ex_states ex_args [] ex_store)
     = Inl (OtherError ''cannot place'')"
proof -
  obtain inps schemas s' where run:
    "expand_inputs ex_mode 2 ex_params ex_states ex_args [] ex_store = (Inr (inps, schemas), s')"
    using expand_inputs_succeeds [of ex_params ex_mode 2 ex_states ex_args "[]" ex_store]
    by (auto simp: ex_params_def)
  have "ex_converter 7 inps schemas False = Inl (OtherError ''cannot place'')"
    by (simp add: ex_converter_def)
  with expand_partial_disallowed [OF run, of ex_converter 7] show ?thesis
    by simp
qed

text \<open>
  Claim C8, as stated, fails: \<^verbatim>\<open>optimize\<close> carries \<^verbatim>\<open>@abstractmethod\<close> as
  \<^verbatim>\<open>expand\<close> does, so a strategy that fills in \<^verbatim>\<open>expand\<close> alone cannot be
  instantiated. It is not optional.
\<close>

theorem optimize_is_required_too:
  "abstractmethods ParallelMode = [M_expand, M_optimize]
   \<and> call_method only_expand M_expand = Inr DTensorFallbackMode_expand
   \<and> instantiate only_expand = Inl TypeError"
  by (simp add: abstractmethods_def ParallelMode_def only_expand_def derive_class_def
        instantiate_def call_method_def)

text \<open>
  Claim C8, amended. In the Parallel Mode Abstraction \<^verbatim>\<open>expand\<close> and \<^verbatim>\<open>optimize\<close> are
  the required operations (both abstract), and \<^verbatim>\<open>configure_optimization_passes\<close> is the
  optional one; the body the interface gives each of the three raises
  \<^verbatim>\<open>NotImplementedError\<close>. The fallback strategy can be instantiated, its
  \<^verbatim>\<open>expand\<close> is implemented, and calling its \<^verbatim>\<open>optimize\<close> (its own definition) or its
  \<^verbatim>\<open>configure_optimization_passes\<close> (inherited) raises \<^verbatim>\<open>NotImplementedError\<close>.
\<close>

theorem parallel_mode_interface:
  "abstractmethods ParallelMode = [M_expand, M_optimize]
   \<and> call_method ParallelMode M_expand = Inl NotImplementedError
   \<and> call_method ParallelMode M_optimize = Inl NotImplementedError
   \<and> call_method ParallelMode M_configure_optimization_passes = Inl NotImplementedError
   \<and> instantiate DTensorFallbackMode = Inr DTensorFallbackMode
   \<and> call_method DTensorFallbackMode M_expand = Inr DTensorFallbackMode_expand
   \<and> call_method DTensorFallbackMode M_optimize = Inl NotImplementedError
   \<and> call_method DTensorFallbackMode M_configure_optimization_passes = Inl NotImplementedError"
  by (simp add: abstractmethods_def ParallelMode_def DTensorFallbackMode_def derive_class_def
        instantiate_def call_method_def)

section \<open>Properties of the State Rematerializer\<close>

lemma map_of_dict_update:
  "distinct (map fst other) \<Longrightarrow>
     map_of (dict_update d other) k =
       (case map_of other k of Some v \<Rightarrow> Some v | None \<Rightarrow> map_of d k)"
proof (induction other arbitrary: d)
  case Nil
  show ?case by (simp add: dict_update_def)
next
  case (Cons kv other)
  have step: "dict_update d (kv # other) = dict_update (AList.update (fst kv) (snd kv) d) other"
    by (simp add: dict_update_def)
  have d: "distinct (map fst other)" and fresh: "fst kv \<notin> fst ` set other"
    using Cons.prems by simp_all
  have none: "k = fst kv \<Longrightarrow> map_of other k = None"
    using fresh by (simp add: map_of_eq_None_iff)
  show ?case
    unfolding step Cons.IH [OF d]
    using none by (cases kv) (auto simp: update_conv' split: option.splits)
qed

lemma rematerialize_enter_saved:
  assumes "rematerialize_enter named_states ps w = (Inr sv, w1)"
  shows "orig_states sv = state (opt w)"
    and "param_groups (opt w) \<noteq> []"
    and "the_group sv = hd (param_groups (opt w))"
    and "orig_params sv = params (groups (heap w) (hd (param_groups (opt w))))"
  using assms
  by (auto simp: rematerialize_enter_def Let_def split: prod.splits option.splits list.splits)

text \<open>
  Claim C1, amended. For every optimizer and every body executed inside the scope (the entry
  code has run without an exception), on either exit, a normal return or an exception of the
  body: the outcome of the body is the outcome of the scope (an exception goes on to the
  caller); the group object that was the first parameter group at entry has the parameter
  list it had at entry; and every parameter that had a state entry at entry is bound to the
  same state record again, whatever the body did to the state map. No entry present at
  entry is lost. (Entries under other keys stay, and the records themselves are shared with
  the saved copy, so their contents are what the body left.)
\<close>

theorem rematerialize_restores:
  assumes enter: "rematerialize_enter named_states ps w = (Inr sv, w1)"
      and dict: "distinct (map fst (state (opt w)))"
  shows "(case rematerialize_optimizer named_states ps body w of
            (res, w') \<Rightarrow>
              res = fst (body w1)
            \<and> params (groups (heap w') (hd (param_groups (opt w))))
                = params (groups (heap w) (hd (param_groups (opt w))))
            \<and> (\<forall>k r. map_of (state (opt w)) k = Some r \<longrightarrow> map_of (state (opt w')) k = Some r))"
proof -
  obtain res w2 where body: "body w1 = (res, w2)" by (cases "body w1")
  have run: "rematerialize_optimizer named_states ps body w = (res, rematerialize_exit sv w2)"
    using enter body by (simp add: rematerialize_optimizer_def)
  note sv = rematerialize_enter_saved [OF enter]
  have grp: "params (groups (heap (rematerialize_exit sv w2)) (hd (param_groups (opt w))))
                = params (groups (heap w) (hd (param_groups (opt w))))"
    using sv(3,4) by (simp add: rematerialize_exit_def)
  have st: "map_of (state (opt (rematerialize_exit sv w2))) k = Some r"
    if "map_of (state (opt w)) k = Some r" for k r
    using that dict sv(1) by (simp add: rematerialize_exit_def map_of_dict_update)
  show ?thesis
    using run body grp st by simp
qed

theorem rematerialize_restores_witness:
  "fst (rematerialize_optimizer (Some [(''weight'', 7)]) [(''weight'', PTensor (ex_placeholder 11))]
          clearing_body populated_world) = Inl (OtherError ''raised in the body'')
   \<and> params (groups (heap (snd (rematerialize_optimizer (Some [(''weight'', 7)])
          [(''weight'', PTensor (ex_placeholder 11))] clearing_body populated_world))) 50)
        = [PTensor (ex_tensor 1)]
   \<and> map_of (state (opt (snd (rematerialize_optimizer (Some [(''weight'', 7)])
          [(''weight'', PTensor (ex_placeholder 11))] clearing_body populated_world)))) 1 = Some 5"
proof -
  let ?ns = "Some [(''weight'', 7::nat)]"
  let ?ps = "[(''weight'', PTensor (ex_placeholder 11))]"
  let ?sv = "\<lparr>orig_states = [(1::nat, 5::nat)], the_group = 50, orig_params = [PTensor (ex_tensor 1)]\<rparr>"
  let ?w1 = "snd (rematerialize_enter ?ns ?ps populated_world)"
  have enter: "rematerialize_enter ?ns ?ps populated_world = (Inr ?sv, ?w1)"
    by (simp add: prod_eq_iff rematerialize_enter_def populated_world_def cex_world_def
          ex_store_def ex_placeholder_def)
  have dict: "distinct (map fst (state (opt populated_world)))"
    by (simp add: populated_world_def cex_world_def)
  have body: "fst (clearing_body ?w1) = Inl (OtherError ''raised in the body'')"
    by (simp add: clearing_body_def)
  have grp: "hd (param_groups (opt populated_world)) = 50"
       "params (groups (heap populated_world) 50) = [PTensor (ex_tensor 1)]"
       "map_of (state (opt populated_world)) 1 = Some 5"
    by (simp_all add: populated_world_def cex_world_def)
  from rematerialize_restores [OF enter dict, of clearing_body] body grp
  show ?thesis
    by (auto simp: case_prod_beta)
qed


text \<open>
  Claim C1, as stated, fails: the state map after the scope is not the state map before it.
  The entry code stores the supplied states under the new parameter objects (line 31), and
  the exit code merges the saved entries over the current map (line 43) without removing
  anything. Here the map is empty before entry and holds the entry \<open>(11, 7)\<close> after the
  body has raised. The compiler relies on this: it reads the entries that the warm-up call
  added after that call's scope has exited (lines 134 and 146).
\<close>

theorem rematerialize_leaves_new_entries:
  "fst (rematerialize_optimizer (Some [(''weight'', 7)]) [(''weight'', PTensor (ex_placeholder 11))]
          raising_body cex_world) = Inl (OtherError ''raised in the body'')
   \<and> state (opt cex_world) = []
   \<and> state (opt (snd (rematerialize_optimizer (Some [(''weight'', 7)])
          [(''weight'', PTensor (ex_placeholder 11))] raising_body cex_world))) = [(11, 7)]"
  by (simp add: rematerialize_optimizer_def rematerialize_enter_def rematerialize_exit_def
        raising_body_def cex_world_def ex_store_def ex_placeholder_def dict_update_def)


lemmas example_defs =
  ex_module_def ex_fake_module_def ex_fake_inputs_def ex_env_def ex_forward_def cex_world_def
  permissive_world_def ex_store_def ex_tensor_def ex_placeholder_def ex_loss_def
  bare_output_def tuple_output_def nested_output_def

lemmas compile_defs =
  compile_fn_def compile_warmup_def compile_after_warmup_def Let_def
  assert_no_fake_params_or_buffers_def module_params_def dict_update_def dict_of_def
  functional_call_def functional_call_2_def make_fx_def
  rematerialize_optimizer_def rematerialize_enter_def rematerialize_exit_def call_module_def
  zero_state_def torch_zeros_def zero_inplace_def named_states_tree_def output_error_def

section \<open>Properties of the compiler\<close>

subsection \<open>Frame: what the wrappers leave alone\<close>

lemma rematerialize_enter_flags:
  "rematerialize_enter ns ps w = (r, w1) \<Longrightarrow>
     allow_non_fake_inputs w1 = allow_non_fake_inputs w \<and> grad_enabled w1 = grad_enabled w"
  by (auto simp: rematerialize_enter_def Let_def split: prod.splits option.splits list.splits)

lemma rematerialize_exit_flags:
  "allow_non_fake_inputs (rematerialize_exit sv w) = allow_non_fake_inputs w
   \<and> grad_enabled (rematerialize_exit sv w) = grad_enabled w"
  by (simp add: rematerialize_exit_def)

lemma call_module_flags:
  "call_module env pd a w = (r, w') \<Longrightarrow>
     allow_non_fake_inputs w' = allow_non_fake_inputs w \<and> grad_enabled w' = grad_enabled w"
  by (auto simp: call_module_def split: prod.splits)

lemma scoped_call_flags:
  assumes "rematerialize_optimizer ns pd (call_module env pd a) w = (r, w')"
  shows "allow_non_fake_inputs w' = allow_non_fake_inputs w \<and> grad_enabled w' = grad_enabled w"
proof (cases "rematerialize_enter ns pd w")
  case (Pair e w1)
  note en = rematerialize_enter_flags [OF Pair]
  show ?thesis
  proof (cases e)
    case (Inl x)
    with assms Pair en show ?thesis
      by (simp add: rematerialize_optimizer_def)
  next
    case (Inr sv)
    obtain r2 w2 where b: "call_module env pd a w1 = (r2, w2)" by (cases "call_module env pd a w1")
    from assms Pair Inr b have "w' = rematerialize_exit sv w2"
      by (simp add: rematerialize_optimizer_def)
    with call_module_flags [OF b] en rematerialize_exit_flags [of sv w2] show ?thesis
      by simp
  qed
qed

lemma functional_call_flags:
  assumes "functional_call env n spec k args w = (r, w')"
  shows "allow_non_fake_inputs w' = allow_non_fake_inputs w \<and> grad_enabled w' = grad_enabled w"
proof (cases "tree_unflatten (take n args) spec")
  case (Inl e)
  with assms show ?thesis by (simp add: functional_call_def)
next
  case (Inr t)
  show ?thesis
  proof (cases "as_params_dict t")
    case (Inl e)
    with assms \<open>tree_unflatten (take n args) spec = Inr t\<close> show ?thesis
      by (simp add: functional_call_def)
  next
    case pd: (Inr pd)
    obtain r2 w2 where sc: "rematerialize_optimizer None pd (call_module env pd (drop (n + k) args)) w = (r2, w2)"
      by (cases "rematerialize_optimizer None pd (call_module env pd (drop (n + k) args)) w")
    from assms Inr pd sc have "w' = w2"
      by (auto simp: functional_call_def split: sum.splits if_splits)
    with scoped_call_flags [OF sc] show ?thesis by simp
  qed
qed

lemma functional_call_2_flags:
  assumes "functional_call_2 env n spec k spec2 args w = (r, w')"
  shows "allow_non_fake_inputs w' = allow_non_fake_inputs w \<and> grad_enabled w' = grad_enabled w"
proof -
  consider (early) "w' = w"
    | (cast) h where "w' = w\<lparr>heap := h\<rparr>"
    | (scoped) pd ns h a r2 where
        "rematerialize_optimizer (Some ns) pd (call_module env pd a) (w\<lparr>heap := h\<rparr>) = (r2, w')"
    using assms
    by (auto simp: functional_call_2_def split: sum.splits prod.splits if_splits)
  then show ?thesis
  proof cases
    case early
    then show ?thesis by simp
  next
    case cast
    then show ?thesis by simp
  next
    case scoped
    from scoped_call_flags [OF scoped] show ?thesis by simp
  qed
qed

lemma make_fx_functional_call_2_flags:
  assumes "make_fx env (functional_call_2 env n spec k spec2) args w = (r, w')"
  shows "allow_non_fake_inputs w' = allow_non_fake_inputs w \<and> grad_enabled w' = grad_enabled w"
proof -
  obtain r2 where "functional_call_2 env n spec k spec2 args w = (r2, w')"
    using assms by (auto simp: make_fx_def split: prod.splits sum.splits)
  then show ?thesis by (rule functional_call_2_flags)
qed

lemma compile_after_warmup_flags:
  assumes "compile_after_warmup env fm fake_inputs pflat spec fpf dev w5 = (r, w')"
  shows "allow_non_fake_inputs w' = allow_non_fake_inputs w5"
proof -
  consider (plain) h where "w' = w5\<lparr>heap := h\<rparr>"
    | (traced) n k spec2 args h r2 where
        "make_fx env (functional_call_2 env n spec k spec2) args (w5\<lparr>heap := h\<rparr>) = (r2, w')"
    | (finished) n k spec2 args h r2 w8 where
        "make_fx env (functional_call_2 env n spec k spec2) args (w5\<lparr>heap := h\<rparr>) = (r2, w8)"
        "w' = w8\<lparr>grad_enabled := False\<rparr>"
    using assms
    by (auto simp: compile_after_warmup_def Let_def
             split: sum.splits prod.splits option.splits if_splits)
  then show ?thesis
  proof cases
    case plain
    then show ?thesis by simp
  next
    case traced
    from make_fx_functional_call_2_flags [OF traced] show ?thesis by simp
  next
    case finished
    from make_fx_functional_call_2_flags [OF finished(1)] finished(2) show ?thesis by simp
  qed
qed


lemma flatten_flat_dict:
  "tree_flatten (PDict (map (\<lambda>np. (fst np, Leaf (snd np))) d))
     = (map snd d, DictSpec (map fst d) (replicate (length d) LeafSpec))"
  by (induction d) (simp_all add: comp_def)

lemma compile_warmup_unfold:
  "compile_warmup env gm fm fake_inputs w1 =
     (case fakeify_inputs env fm (map snd (module_params gm)) (heap w1) of
        (Inl e, h) \<Rightarrow> (Inl e, w1\<lparr>heap := h\<rparr>)
      | (Inr fpf, h) \<Rightarrow>
          (case map snd (module_params gm) of
             [] \<Rightarrow> (Inl IndexError, w1\<lparr>heap := h\<rparr>)
           | PObject q # rest \<Rightarrow> (Inl AttributeError, w1\<lparr>heap := h\<rparr>)
           | PTensor t0 # rest \<Rightarrow>
               (case functional_call env (length (module_params gm))
                       (DictSpec (map fst (module_params gm))
                          (replicate (length (module_params gm)) LeafSpec)) 0
                       (fpf @ fake_inputs)
                       (w1\<lparr>heap := h,
                           allow_non_fake_inputs := (allow_non_fake_inputs w1)(fm := True)\<rparr>) of
                  (Inl e, w4) \<Rightarrow> (Inl e, w4)
                | (Inr first_loss, w4) \<Rightarrow>
                    compile_after_warmup env fm fake_inputs (map snd (module_params gm))
                      (DictSpec (map fst (module_params gm))
                         (replicate (length (module_params gm)) LeafSpec)) fpf
                      (device t0)
                      (w4\<lparr>allow_non_fake_inputs := (allow_non_fake_inputs w4)(fm := False)\<rparr>))))"
  unfolding compile_warmup_def Let_def flatten_flat_dict prod.case length_map
  by (rule refl)

lemma compile_warmup_call:
  assumes fk: "fakeify_inputs env fm (map snd (module_params gm)) (heap w1) = (Inr fpf, h)"
      and pf: "map snd (module_params gm) = PTensor t0 # rest"
  shows "compile_warmup env gm fm fake_inputs w1 =
           (case functional_call env (length (module_params gm))
                   (DictSpec (map fst (module_params gm)) (replicate (length (module_params gm)) LeafSpec))
                   0 (fpf @ fake_inputs)
                   (w1\<lparr>heap := h, allow_non_fake_inputs := (allow_non_fake_inputs w1)(fm := True)\<rparr>) of
              (Inl e, w4) \<Rightarrow> (Inl e, w4)
            | (Inr first_loss, w4) \<Rightarrow>
                compile_after_warmup env fm fake_inputs (map snd (module_params gm))
                  (DictSpec (map fst (module_params gm)) (replicate (length (module_params gm)) LeafSpec))
                  fpf (device t0)
                  (w4\<lparr>allow_non_fake_inputs := (allow_non_fake_inputs w4)(fm := False)\<rparr>))"
proof -
  have fk': "fakeify_inputs env fm (PTensor t0 # rest) (heap w1) = (Inr fpf, h)"
    using fk unfolding pf .
  show ?thesis
    unfolding compile_warmup_unfold pf fk'
    by (simp only: prod.case sum.case list.case pyobj.case)
qed

lemma compile_warmup_Inr:
  assumes "compile_warmup env gm fm fake_inputs w1 = (Inr c, w')"
  shows "\<exists>fpf h t0 rest out w4.
           fakeify_inputs env fm (map snd (module_params gm)) (heap w1) = (Inr fpf, h)
         \<and> map snd (module_params gm) = PTensor t0 # rest
         \<and> functional_call env (length (module_params gm))
              (DictSpec (map fst (module_params gm)) (replicate (length (module_params gm)) LeafSpec))
              0 (fpf @ fake_inputs)
              (w1\<lparr>heap := h, allow_non_fake_inputs := (allow_non_fake_inputs w1)(fm := True)\<rparr>)
              = (Inr out, w4)
         \<and> compile_after_warmup env fm fake_inputs (map snd (module_params gm))
              (DictSpec (map fst (module_params gm)) (replicate (length (module_params gm)) LeafSpec))
              fpf (device t0)
              (w4\<lparr>allow_non_fake_inputs := (allow_non_fake_inputs w4)(fm := False)\<rparr>)
              = (Inr c, w')"
proof -
  let ?pflat = "map snd (module_params gm)"
  obtain rf h where fk: "fakeify_inputs env fm ?pflat (heap w1) = (rf, h)"
    by (cases "fakeify_inputs env fm ?pflat (heap w1)")
  show ?thesis
  proof (cases rf)
    case (Inl e)
    with assms fk show ?thesis
      unfolding compile_warmup_unfold by simp
  next
    case (Inr fpf)
    show ?thesis
    proof (cases ?pflat)
      case Nil
      with assms fk Inr show ?thesis
        unfolding compile_warmup_unfold by simp
    next
      case (Cons p rest)
      show ?thesis
      proof (cases p)
        case (PObject q)
        with assms fk Inr Cons show ?thesis
          unfolding compile_warmup_unfold by simp
      next
        case (PTensor t0)
        let ?fc = "functional_call env (length (module_params gm))
              (DictSpec (map fst (module_params gm)) (replicate (length (module_params gm)) LeafSpec))
              0 (fpf @ fake_inputs)
              (w1\<lparr>heap := h, allow_non_fake_inputs := (allow_non_fake_inputs w1)(fm := True)\<rparr>)"
        obtain r4 w4 where fc: "?fc = (r4, w4)" by (cases ?fc)
        have fkI: "fakeify_inputs env fm ?pflat (heap w1) = (Inr fpf, h)"
          using fk Inr by simp
        have pfI: "?pflat = PTensor t0 # rest"
          using Cons PTensor by simp
        from assms have eq: "(case ?fc of
                  (Inl e, w4) \<Rightarrow> (Inl e, w4)
                | (Inr first_loss, w4) \<Rightarrow>
                    compile_after_warmup env fm fake_inputs ?pflat
                      (DictSpec (map fst (module_params gm))
                         (replicate (length (module_params gm)) LeafSpec)) fpf
                      (device t0)
                      (w4\<lparr>allow_non_fake_inputs := (allow_non_fake_inputs w4)(fm := False)\<rparr>))
              = (Inr c, w')"
          unfolding compile_warmup_call [OF fkI pfI] .
        show ?thesis
        proof (cases r4)
          case (Inl e)
          with eq fc show ?thesis by simp
        next
          case out: (Inr out)
          from eq fc out have "compile_after_warmup env fm fake_inputs ?pflat
                      (DictSpec (map fst (module_params gm))
                         (replicate (length (module_params gm)) LeafSpec)) fpf
                      (device t0)
                      (w4\<lparr>allow_non_fake_inputs := (allow_non_fake_inputs w4)(fm := False)\<rparr>)
              = (Inr c, w')"
            by simp
          then have d: "compile_after_warmup env fm fake_inputs ?pflat
                      (DictSpec (map fst (module_params gm))
                         (replicate (length (module_params gm)) LeafSpec)) fpf
                      (device t0)
                      (w4\<lparr>allow_non_fake_inputs := (allow_non_fake_inputs w4)(fm := False)\<rparr>)
              = (Inr c, w')" .
          have a: "fakeify_inputs env fm ?pflat (heap w1) = (Inr fpf, h)"
            using fk Inr by simp
          have b: "?pflat = PTensor t0 # rest"
            using Cons PTensor by simp
          have c: "?fc = (Inr out, w4)"
            using fc out by simp
          from a b c d show ?thesis
            by (intro exI conjI)
        qed
      qed
    qed
  qed
qed

lemma compile_fn_Inr_warmup:
  assumes "compile_fn env gm fake_inputs w = (Inr c, w')"
  obtains fm pflat spec fpf h out and w4 :: world and t0 :: tensor where
    "fake_mode_attr (hd fake_inputs) = Some (Some fm)"
    "functional_call env (length pflat) spec 0 (fpf @ fake_inputs)
       (w\<lparr>grad_enabled := True, heap := h,
           allow_non_fake_inputs := (allow_non_fake_inputs w)(fm := True)\<rparr>) = (Inr out, w4)"
    "compile_after_warmup env fm fake_inputs pflat spec fpf (device t0)
       (w4\<lparr>allow_non_fake_inputs := (allow_non_fake_inputs w4)(fm := False)\<rparr>) = (Inr c, w')"
proof -
  obtain fm where fm: "fake_mode_attr (hd fake_inputs) = Some (Some fm)"
    and cw: "compile_warmup env gm fm fake_inputs (w\<lparr>grad_enabled := True\<rparr>) = (Inr c, w')"
    using assms
    by (auto simp: compile_fn_def Let_def split: if_splits option.splits)
  from compile_warmup_Inr [OF cw] show thesis
  proof (elim exE conjE)
    fix fpf h rest out and t0 :: tensor and w4 :: world
    assume fc: "functional_call env (length (module_params gm))
              (DictSpec (map fst (module_params gm)) (replicate (length (module_params gm)) LeafSpec))
              0 (fpf @ fake_inputs)
              (w\<lparr>grad_enabled := True, heap := h,
                 allow_non_fake_inputs := (allow_non_fake_inputs (w\<lparr>grad_enabled := True\<rparr>))(fm := True)\<rparr>)
              = (Inr out, w4)"
      and after: "compile_after_warmup env fm fake_inputs (map snd (module_params gm))
              (DictSpec (map fst (module_params gm)) (replicate (length (module_params gm)) LeafSpec))
              fpf (device t0)
              (w4\<lparr>allow_non_fake_inputs := (allow_non_fake_inputs w4)(fm := False)\<rparr>)
              = (Inr c, w')"
    have fc': "functional_call env (length (map snd (module_params gm)))
              (DictSpec (map fst (module_params gm)) (replicate (length (module_params gm)) LeafSpec))
              0 (fpf @ fake_inputs)
              (w\<lparr>grad_enabled := True, heap := h,
                 allow_non_fake_inputs := (allow_non_fake_inputs w)(fm := True)\<rparr>)
              = (Inr out, w4)"
      using fc by simp
    from fm fc' after show thesis
      by (rule that)
  qed
qed

text \<open>
  Claim C10, amended. If \<^verbatim>\<open>_compile_fn\<close> returns normally, the first sample input
  carries a \<^verbatim>\<open>FakeTensorMode\<close> whose flag \<^verbatim>\<open>allow_non_fake_inputs\<close> is \<^verbatim>\<open>False\<close>
  on return, whatever it was at entry: line 129 sets it for the warm-up call, line 131
  clears it, and nothing after writes it. The flags of the other modes are as at entry. So
  a successful compilation leaves the flag unchanged exactly when it was \<^verbatim>\<open>False\<close> at
  entry.
\<close>

theorem compile_fn_resets_flag:
  assumes "compile_fn env gm fake_inputs w = (Inr c, w')"
  shows "\<exists>fm. fake_mode_attr (hd fake_inputs) = Some (Some fm)
           \<and> \<not> allow_non_fake_inputs w' fm
           \<and> (\<forall>m. m \<noteq> fm \<longrightarrow> allow_non_fake_inputs w' m = allow_non_fake_inputs w m)"
proof -
  from assms obtain fm pflat spec fpf h out and w4 :: world and t0 :: tensor where
    fm: "fake_mode_attr (hd fake_inputs) = Some (Some fm)"
    and warm: "functional_call env (length pflat) spec 0 (fpf @ fake_inputs)
       (w\<lparr>grad_enabled := True, heap := h,
           allow_non_fake_inputs := (allow_non_fake_inputs w)(fm := True)\<rparr>) = (Inr out, w4)"
    and after: "compile_after_warmup env fm fake_inputs pflat spec fpf (device t0)
       (w4\<lparr>allow_non_fake_inputs := (allow_non_fake_inputs w4)(fm := False)\<rparr>) = (Inr c, w')"
    by (rule compile_fn_Inr_warmup)
  from functional_call_flags [OF warm]
  have a4: "allow_non_fake_inputs w4 = (allow_non_fake_inputs w)(fm := True)"
    by simp
  from compile_after_warmup_flags [OF after]
  have "allow_non_fake_inputs w' = (allow_non_fake_inputs w4)(fm := False)"
    by simp
  with a4 have "allow_non_fake_inputs w' = (allow_non_fake_inputs w)(fm := False)"
    by simp
  with fm show ?thesis by simp
qed

lemma ex_compile_tuple:
  "fst (compile_fn (ex_env tuple_output) ex_module ex_fake_inputs w)
     = Inr \<lparr>params_flat = [PTensor (ex_tensor 1)],
            named_states_flat =
              [PTensor \<lparr>tid = 103, shape = [2, 3], dtype = Float32, device = CUDA 0, kind = Real\<rparr>],
            functional_fx_g = 0\<rparr>"
  if "w = cex_world \<or> w = permissive_world"
  using that by (auto simp: compile_defs example_defs)

theorem compile_fn_resets_flag_witness:
  "\<not> allow_non_fake_inputs
       (snd (compile_fn (ex_env tuple_output) ex_module ex_fake_inputs cex_world)) 30"
proof -
  let ?r = "compile_fn (ex_env tuple_output) ex_module ex_fake_inputs cex_world"
  have "?r = (Inr \<lparr>params_flat = [PTensor (ex_tensor 1)],
            named_states_flat =
              [PTensor \<lparr>tid = 103, shape = [2, 3], dtype = Float32, device = CUDA 0, kind = Real\<rparr>],
            functional_fx_g = 0\<rparr>, snd ?r)"
    using ex_compile_tuple [of cex_world] by (simp add: prod_eq_iff)
  from compile_fn_resets_flag [OF this] show ?thesis
    by (simp add: ex_fake_inputs_def)
qed

text \<open>
  Claim C10, as stated, fails in its last part: the flag is not restored but cleared. With
  the flag of the supplied mode set at entry, the compilation succeeds and leaves it
  cleared.
\<close>

theorem compile_fn_turns_flag_off:
  "allow_non_fake_inputs permissive_world 30
   \<and> fst (compile_fn (ex_env tuple_output) ex_module ex_fake_inputs permissive_world)
       = Inr \<lparr>params_flat = [PTensor (ex_tensor 1)],
            named_states_flat =
              [PTensor \<lparr>tid = 103, shape = [2, 3], dtype = Float32, device = CUDA 0, kind = Real\<rparr>],
            functional_fx_g = 0\<rparr>
   \<and> \<not> allow_non_fake_inputs
         (snd (compile_fn (ex_env tuple_output) ex_module ex_fake_inputs permissive_world)) 30"
proof -
  have a: "allow_non_fake_inputs permissive_world 30"
    by (simp add: permissive_world_def)
  have b: "\<not> allow_non_fake_inputs
         (snd (compile_fn (ex_env tuple_output) ex_module ex_fake_inputs permissive_world)) 30"
    by (simp add: compile_defs example_defs)
  from a ex_compile_tuple [of permissive_world] b show ?thesis by simp
qed

text \<open>
  Claim C3, amended. \<^verbatim>\<open>_compile_fn\<close> aborts before the warm-up call and before any
  tracing whenever a parameter or buffer of the module is a placeholder (\<^verbatim>\<open>FakeTensor\<close>)
  where materialized tensors are expected, or no sample input is supplied, or the first
  sample input carries no valid \<^verbatim>\<open>FakeTensorMode\<close>: it raises an assertion error (an
  attribute error when the first input has no \<^verbatim>\<open>fake_mode\<close> at all), the world is the
  one of entry but for the gradient mode that line 62 has switched on, and nothing of the
  training step, the placeholder conversion or the tracer has any influence on the outcome.
\<close>

theorem compile_fn_preconditions:
  assumes "\<not> assert_no_fake_params_or_buffers gm \<or> fake_inputs = []
           \<or> (\<forall>fm. fake_mode_attr (hd fake_inputs) \<noteq> Some (Some fm))"
  shows "\<exists>e. compile_fn env gm fake_inputs w = (Inl e, w\<lparr>grad_enabled := True\<rparr>)
           \<and> (e = AttributeError \<or> (\<exists>msg. e = AssertionError msg))
           \<and> (\<forall>env'. compile_fn env' gm fake_inputs w = compile_fn env gm fake_inputs w)"
proof (cases "\<not> assert_no_fake_params_or_buffers gm \<or> fake_inputs = []")
  case True
  then show ?thesis
    by (auto simp: compile_fn_def Let_def)
next
  case False
  with assms have no: "\<forall>fm. fake_mode_attr (hd fake_inputs) \<noteq> Some (Some fm)"
    by blast
  then consider "fake_mode_attr (hd fake_inputs) = None" | "fake_mode_attr (hd fake_inputs) = Some None"
    by (cases "fake_mode_attr (hd fake_inputs)") auto
  then show ?thesis
    using False by cases (auto simp: compile_fn_def Let_def)
qed

theorem compile_fn_preconditions_witness:
  "compile_fn (ex_env tuple_output) ex_fake_module ex_fake_inputs cex_world
     = (Inl (AssertionError ''Unexpected fake param or buffer''), cex_world\<lparr>grad_enabled := True\<rparr>)"
proof -
  have "\<not> assert_no_fake_params_or_buffers ex_fake_module"
    by (simp add: assert_no_fake_params_or_buffers_def ex_fake_module_def ex_placeholder_def)
  then have "\<not> assert_no_fake_params_or_buffers ex_fake_module \<or> ex_fake_inputs = []
           \<or> (\<forall>fm. fake_mode_attr (hd ex_fake_inputs) \<noteq> Some (Some fm))"
    by simp
  from compile_fn_preconditions [OF this, of "ex_env tuple_output" cex_world]
  obtain e where e: "compile_fn (ex_env tuple_output) ex_fake_module ex_fake_inputs cex_world
      = (Inl e, cex_world\<lparr>grad_enabled := True\<rparr>)"
    by blast
  moreover have "fst (compile_fn (ex_env tuple_output) ex_fake_module ex_fake_inputs cex_world)
      = Inl (AssertionError ''Unexpected fake param or buffer'')"
    by (simp add: compile_fn_def assert_no_fake_params_or_buffers_def ex_fake_module_def
          ex_placeholder_def)
  ultimately show ?thesis by simp
qed

text \<open>
  Claim C3, as stated, fails in its first case: materialized parameters are what the
  compiler expects. A module whose only parameter is a materialized tensor passes the checks
  and compiles.
\<close>

theorem materialized_parameters_are_accepted:
  "named_parameters ex_module = [(''weight'', PTensor (ex_tensor 1))]
   \<and> named_buffers ex_module = []
   \<and> kind (ex_tensor 1) = Real
   \<and> fst (compile_fn (ex_env tuple_output) ex_module ex_fake_inputs cex_world)
       = Inr \<lparr>params_flat = [PTensor (ex_tensor 1)],
            named_states_flat =
              [PTensor \<lparr>tid = 103, shape = [2, 3], dtype = Float32, device = CUDA 0, kind = Real\<rparr>],
            functional_fx_g = 0\<rparr>"
proof -
  have "named_parameters ex_module = [(''weight'', PTensor (ex_tensor 1))]
   \<and> named_buffers ex_module = [] \<and> kind (ex_tensor 1) = Real"
    by (simp add: ex_module_def ex_tensor_def)
  with ex_compile_tuple [of cex_world] show ?thesis by simp
qed


subsection \<open>The output check\<close>

lemma scoped_call_Inr:
  assumes "rematerialize_optimizer ns pd (call_module env pd a) w = (Inr out, w')"
  shows "\<exists>w1 ob h. forward env w1 pd a = (Inr out, ob, h)"
proof (cases "rematerialize_enter ns pd w")
  case (Pair e w1)
  show ?thesis
  proof (cases e)
    case (Inl x)
    with assms Pair show ?thesis by (simp add: rematerialize_optimizer_def)
  next
    case (Inr sv)
    obtain r ob h where f: "forward env w1 pd a = (r, ob, h)"
      by (cases "forward env w1 pd a")
    with assms Pair Inr have "r = Inr out"
      by (simp add: rematerialize_optimizer_def call_module_def)
    with f show ?thesis by blast
  qed
qed

lemma functional_call_Inr:
  assumes "functional_call env n spec k args w = (Inr out, w')"
  shows "is_tuple_or_list out \<and> (\<exists>w1 pd a ob h. forward env w1 pd a = (Inr out, ob, h))"
proof -
  from assms obtain pd where
    "rematerialize_optimizer None pd (call_module env pd (drop (n + k) args)) w = (Inr out, w')"
    and "is_tuple_or_list out"
    by (auto simp: functional_call_def split: sum.splits prod.splits if_splits)
  with scoped_call_Inr show ?thesis by blast
qed

lemma wrapper_1_check:
  assumes "tree_unflatten (take n args) spec = Inr t" and "as_params_dict t = Inr pd"
      and "rematerialize_optimizer None pd (call_module env pd (drop (n + k) args)) w = (Inr out, w')"
  shows "functional_call env n spec k args w
           = (if is_tuple_or_list out then Inr out else Inl output_error, w')"
  using assms by (simp add: functional_call_def)

lemma wrapper_2_check:
  assumes "tree_unflatten (take n args) spec = Inr t" and "as_params_dict t = Inr pd"
      and "tree_unflatten (take k (drop n args)) spec2 = Inr nt"
      and "as_named_states nt (heap w) = (Inr ns, h)"
      and "rematerialize_optimizer (Some ns) pd (call_module env pd (drop (n + k) args))
             (w\<lparr>heap := h\<rparr>) = (Inr out, w')"
  shows "functional_call_2 env n spec k spec2 args w
           = (if is_tuple_or_list out then Inr out else Inl output_error, w')"
  using assms by (simp add: functional_call_2_def)

lemma never_silently:
  assumes "\<forall>w1 pd a out ob h. forward env w1 pd a = (Inr out, ob, h) \<longrightarrow> \<not> is_tuple_or_list out"
  shows "compile_fn env gm fake_inputs w \<noteq> (Inr c, w')"
proof
  assume "compile_fn env gm fake_inputs w = (Inr c, w')"
  then obtain fm pflat spec fpf h out and w4 :: world and t0 :: tensor where
    "fake_mode_attr (hd fake_inputs) = Some (Some fm)"
    "functional_call env (length pflat) spec 0 (fpf @ fake_inputs)
       (w\<lparr>grad_enabled := True, heap := h,
           allow_non_fake_inputs := (allow_non_fake_inputs w)(fm := True)\<rparr>) = (Inr out, w4)"
    "compile_after_warmup env fm fake_inputs pflat spec fpf (device t0)
       (w4\<lparr>allow_non_fake_inputs := (allow_non_fake_inputs w4)(fm := False)\<rparr>) = (Inr c, w')"
    by (rule compile_fn_Inr_warmup)
  from functional_call_Inr [OF this(2)] assms show False by blast
qed

lemma fakeify_inputs_length:
  "fakeify_inputs env fm xs s = (Inr ys, s') \<Longrightarrow> length ys = length xs"
proof (induction xs arbitrary: ys s)
  case Nil
  then show ?case by simp
next
  case (Cons x xs)
  then show ?case
    by (cases x) (auto split: prod.splits sum.splits)
qed

lemma fakeify_inputs_tensors:
  "fakeify_inputs env fm xs s = (Inr ys, s') \<Longrightarrow> list_all is_Tensor xs"
proof (induction xs arbitrary: ys s)
  case Nil
  then show ?case by simp
next
  case (Cons x xs)
  then show ?case
    by (cases x) (auto split: prod.splits sum.splits)
qed

lemma unflatten_children_leaves:
  "unflatten_children xs (replicate (length xs) LeafSpec) = Inr (map Leaf xs)"
  by (induction xs) simp_all

lemma unflatten_flat_dict:
  assumes "length xs = length names"
  shows "tree_unflatten xs (DictSpec names (replicate (length names) LeafSpec))
           = Inr (PDict (zip names (map Leaf xs)))"
  using assms unflatten_children_leaves [of xs] by (simp add: sum_list_replicate)

lemma leaf_items_zip:
  "leaf_items (zip names (map Leaf xs)) = Inr (zip names xs)"
  by (induction names xs rule: list_induct2') simp_all

lemma rematerialize_enter_None:
  assumes "param_groups (opt w) \<noteq> []"
  shows "\<exists>sv w1. rematerialize_enter None pd w = (Inr sv, w1)"
  using assms by (cases "param_groups (opt w)") (simp_all add: rematerialize_enter_def)

lemma bare_output_fails:
  assumes pre1: "assert_no_fake_params_or_buffers gm"
      and pre2: "fake_inputs \<noteq> []"
      and pre3: "fake_mode_attr (hd fake_inputs) = Some (Some fm)"
      and fk: "fst (fakeify_inputs env fm (map snd (module_params gm)) (heap w)) = Inr fpf"
      and ne: "module_params gm \<noteq> []"
      and grp: "param_groups (opt w) \<noteq> []"
      and body: "\<forall>w1 pd a. \<exists>out ob h. forward env w1 pd a = (Inr out, ob, h) \<and> \<not> is_tuple_or_list out"
  shows "fst (compile_fn env gm fake_inputs w) = Inl output_error"
proof -
  let ?w1 = "w\<lparr>grad_enabled := True\<rparr>"
  let ?d = "module_params gm"
  obtain h where fk': "fakeify_inputs env fm (map snd ?d) (heap ?w1) = (Inr fpf, h)"
    using fk by (cases "fakeify_inputs env fm (map snd ?d) (heap w)") simp
  have len: "length fpf = length ?d"
    using fakeify_inputs_length [OF fk'] by simp
  have "list_all is_Tensor (map snd ?d)"
    using fakeify_inputs_tensors [OF fk'] .
  with ne obtain t0 rest where pf: "map snd ?d = PTensor t0 # rest"
    by (cases ?d; cases "snd (hd ?d)") auto
  let ?w3 = "?w1\<lparr>heap := h, allow_non_fake_inputs := (allow_non_fake_inputs ?w1)(fm := True)\<rparr>"
  let ?spec = "DictSpec (map fst ?d) (replicate (length ?d) LeafSpec)"
  let ?pd = "zip (map fst ?d) fpf"
  have un: "tree_unflatten (take (length ?d) (fpf @ fake_inputs)) ?spec
              = Inr (PDict (zip (map fst ?d) (map Leaf fpf)))"
    using unflatten_flat_dict [of fpf "map fst ?d"] len by simp
  have cast: "as_params_dict (PDict (zip (map fst ?d) (map Leaf fpf))) = Inr ?pd"
    by (simp add: leaf_items_zip)
  let ?a = "drop (length ?d + 0) (fpf @ fake_inputs)"
  have "param_groups (opt ?w3) \<noteq> []" using grp by simp
  from rematerialize_enter_None [OF this] obtain sv w3' where
    en: "rematerialize_enter None ?pd ?w3 = (Inr sv, w3')" by blast
  from body obtain out ob h' where f: "forward env w3' ?pd ?a = (Inr out, ob, h')"
    and bad: "\<not> is_tuple_or_list out" by blast
  have sc: "rematerialize_optimizer None ?pd (call_module env ?pd ?a) ?w3
              = (Inr out, rematerialize_exit sv (w3'\<lparr>opt := ob, heap := h'\<rparr>))"
    using en f by (simp add: rematerialize_optimizer_def call_module_def)
  have fc: "functional_call env (length ?d) ?spec 0 (fpf @ fake_inputs) ?w3
              = (Inl output_error, rematerialize_exit sv (w3'\<lparr>opt := ob, heap := h'\<rparr>))"
    using wrapper_1_check [OF un cast sc] bad by simp
  have "compile_warmup env gm fm fake_inputs ?w1
          = (Inl output_error, rematerialize_exit sv (w3'\<lparr>opt := ob, heap := h'\<rparr>))"
    unfolding compile_warmup_call [OF fk' pf] fc
    by simp
  then show ?thesis
    using pre1 pre2 pre3 by (simp add: compile_fn_def Let_def)
qed


text \<open>
  Claim C4, amended. The check is on the type of the output alone: when the training step
  returns, inside the scope of either wrapper, a value that is neither a tuple nor a list
  (a bare tensor, say), the wrapper raises the \<^verbatim>\<open>RuntimeError\<close> of lines 106-108, and
  when it returns a tuple or a list, nested or not, the wrapper returns it and raises
  nothing. A training step that never returns a tuple or a list never compiles; one that
  always returns and never returns a tuple or a list makes \<^verbatim>\<open>_compile_fn\<close> fail with
  that very error once the checks of lines 63-68 and the conversion of the parameters have
  passed (the error comes from the warm-up call already and reaches the caller as it is).
\<close>

theorem output_shape_contract:
  "(\<forall>t pd out w'.
       tree_unflatten (take n args) spec = Inr t \<longrightarrow> as_params_dict t = Inr pd \<longrightarrow>
       rematerialize_optimizer None pd (call_module env pd (drop (n + k) args)) w = (Inr out, w') \<longrightarrow>
       functional_call env n spec k args w
         = (if is_tuple_or_list out then Inr out else Inl output_error, w'))
   \<and> (\<forall>t pd nt ns h out w'.
       tree_unflatten (take n args) spec = Inr t \<longrightarrow> as_params_dict t = Inr pd \<longrightarrow>
       tree_unflatten (take k (drop n args)) spec2 = Inr nt \<longrightarrow>
       as_named_states nt (heap w) = (Inr ns, h) \<longrightarrow>
       rematerialize_optimizer (Some ns) pd (call_module env pd (drop (n + k) args))
         (w\<lparr>heap := h\<rparr>) = (Inr out, w') \<longrightarrow>
       functional_call_2 env n spec k spec2 args w
         = (if is_tuple_or_list out then Inr out else Inl output_error, w'))
   \<and> ((\<forall>w1 pd a out ob h. forward env w1 pd a = (Inr out, ob, h) \<longrightarrow> \<not> is_tuple_or_list out) \<longrightarrow>
        (\<forall>c w'. compile_fn env gm fake_inputs w0 \<noteq> (Inr c, w')))
   \<and> (assert_no_fake_params_or_buffers gm \<and> fake_inputs \<noteq> []
        \<and> fake_mode_attr (hd fake_inputs) = Some (Some fm)
        \<and> fst (fakeify_inputs env fm (map snd (module_params gm)) (heap w0)) = Inr fpf
        \<and> module_params gm \<noteq> [] \<and> param_groups (opt w0) \<noteq> []
        \<and> (\<forall>w1 pd a. \<exists>out ob h. forward env w1 pd a = (Inr out, ob, h) \<and> \<not> is_tuple_or_list out)
        \<longrightarrow> fst (compile_fn env gm fake_inputs w0) = Inl output_error)"
proof (intro conjI allI impI)
  fix t pd out w'
  assume "tree_unflatten (take n args) spec = Inr t" "as_params_dict t = Inr pd"
    "rematerialize_optimizer None pd (call_module env pd (drop (n + k) args)) w = (Inr out, w')"
  then show "functional_call env n spec k args w
         = (if is_tuple_or_list out then Inr out else Inl output_error, w')"
    by (rule wrapper_1_check)
next
  fix t pd nt ns h out w'
  assume "tree_unflatten (take n args) spec = Inr t" "as_params_dict t = Inr pd"
    "tree_unflatten (take k (drop n args)) spec2 = Inr nt"
    "as_named_states nt (heap w) = (Inr ns, h)"
    "rematerialize_optimizer (Some ns) pd (call_module env pd (drop (n + k) args))
         (w\<lparr>heap := h\<rparr>) = (Inr out, w')"
  then show "functional_call_2 env n spec k spec2 args w
         = (if is_tuple_or_list out then Inr out else Inl output_error, w')"
    by (rule wrapper_2_check)
next
  fix c w'
  assume "\<forall>w1 pd a out ob h. forward env w1 pd a = (Inr out, ob, h) \<longrightarrow> \<not> is_tuple_or_list out"
  then show "compile_fn env gm fake_inputs w0 \<noteq> (Inr c, w')"
    by (rule never_silently)
next
  assume "assert_no_fake_params_or_buffers gm \<and> fake_inputs \<noteq> []
        \<and> fake_mode_attr (hd fake_inputs) = Some (Some fm)
        \<and> fst (fakeify_inputs env fm (map snd (module_params gm)) (heap w0)) = Inr fpf
        \<and> module_params gm \<noteq> [] \<and> param_groups (opt w0) \<noteq> []
        \<and> (\<forall>w1 pd a. \<exists>out ob h. forward env w1 pd a = (Inr out, ob, h) \<and> \<not> is_tuple_or_list out)"
  then show "fst (compile_fn env gm fake_inputs w0) = Inl output_error"
    using bare_output_fails [of gm fake_inputs fm env w0 fpf] by blast
qed

lemma ex_forward_returns:
  "\<exists>ob h. ex_forward out w pd a = (Inr out, ob, h)"
  by (simp add: ex_forward_def split: list.splits pyobj.splits option.splits)

theorem output_shape_contract_witness:
  "fst (compile_fn (ex_env bare_output) ex_module ex_fake_inputs cex_world) = Inl output_error"
proof -
  have body: "\<forall>w1 pd a. \<exists>out ob h. forward (ex_env bare_output) w1 pd a = (Inr out, ob, h)
                 \<and> \<not> is_tuple_or_list out"
  proof (intro allI)
    fix w1 pd a
    obtain ob h where "ex_forward bare_output w1 pd a = (Inr bare_output, ob, h)"
      using ex_forward_returns [of bare_output w1 pd a] by blast
    moreover have "\<not> is_tuple_or_list bare_output"
      by (simp add: bare_output_def)
    ultimately show "\<exists>out ob h. forward (ex_env bare_output) w1 pd a = (Inr out, ob, h)
                 \<and> \<not> is_tuple_or_list out"
      by (auto simp: ex_env_def)
  qed
  have pre: "assert_no_fake_params_or_buffers ex_module \<and> ex_fake_inputs \<noteq> []
        \<and> fake_mode_attr (hd ex_fake_inputs) = Some (Some 30)
        \<and> fst (fakeify_inputs (ex_env bare_output) 30 (map snd (module_params ex_module))
                 (heap cex_world))
            = Inr [PTensor ((ex_tensor 1)\<lparr>tid := 100, kind := Fake (Some 30)\<rparr>)]
        \<and> module_params ex_module \<noteq> [] \<and> param_groups (opt cex_world) \<noteq> []"
    by (simp add: compile_defs example_defs)
  from output_shape_contract [of _ _ _ "ex_env bare_output" _ _ _ ex_module ex_fake_inputs cex_world 30
        "[PTensor ((ex_tensor 1)\<lparr>tid := 100, kind := Fake (Some 30)\<rparr>)]"]
    pre body
  show ?thesis by blast
qed

text \<open>
  Claim C4, as stated, fails for an output that is a tuple but not a flat sequence: a body
  returning a tuple within a tuple compiles without an error.
\<close>

theorem nested_output_is_accepted:
  "\<not> flat_sequence nested_output
   \<and> is_tuple_or_list nested_output
   \<and> fst (compile_fn (ex_env nested_output) ex_module ex_fake_inputs cex_world)
       = Inr \<lparr>params_flat = [PTensor (ex_tensor 1)],
            named_states_flat =
              [PTensor \<lparr>tid = 103, shape = [2, 3], dtype = Float32, device = CUDA 0, kind = Real\<rparr>],
            functional_fx_g = 0\<rparr>"
  by (simp add: compile_defs example_defs)

section \<open>Properties of the compiled callable\<close>

lemma dict_update_values:
  "snd ` set (dict_update d other) \<subseteq> snd ` set d \<union> snd ` set other"
proof (induction other arbitrary: d)
  case Nil
  show ?case by (simp add: dict_update_def)
next
  case (Cons kv other)
  have step: "dict_update d (kv # other) = dict_update (AList.update (fst kv) (snd kv) d) other"
    by (simp add: dict_update_def)
  have "snd ` set (AList.update (fst kv) (snd kv) d) \<subseteq> insert (snd kv) (snd ` set d)"
    by (induction d) auto
  with Cons.IH [of "AList.update (fst kv) (snd kv) d"] show ?case
    unfolding step by auto
qed

lemma module_params_values:
  "snd ` set (module_params gm) \<subseteq> snd ` set (named_parameters gm) \<union> snd ` set (named_buffers gm)"
proof -
  have "snd ` set (dict_of xs) \<subseteq> snd ` set xs" for xs :: "(string \<times> pyobj) list"
    using dict_update_values [of "[]" xs] by (simp add: dict_of_def)
  with dict_update_values [of "dict_of (named_parameters gm)" "dict_of (named_buffers gm)"]
  show ?thesis
    unfolding module_params_def by blast
qed

lemma compile_after_warmup_params:
  assumes "compile_after_warmup env fm fake_inputs pflat spec fpf dev w5 = (Inr c, w')"
  shows "params_flat c = pflat"
  using assms
  by (auto simp: compile_after_warmup_def Let_def
           split: sum.splits prod.splits option.splits if_splits)

lemma compile_fn_closes_over_params:
  assumes ok: "compile_fn env gm fake_inputs w0 = (Inr c, w1)"
  shows "params_flat c = map snd (module_params gm)
       \<and> list_all (\<lambda>p. is_Tensor p \<and> \<not> is_FakeTensor p) (params_flat c)"
proof -
  have nofake: "assert_no_fake_params_or_buffers gm"
    using ok by (auto simp: compile_fn_def Let_def split: if_splits)
  obtain fm where cw: "compile_warmup env gm fm fake_inputs (w0\<lparr>grad_enabled := True\<rparr>) = (Inr c, w1)"
    using ok by (auto simp: compile_fn_def Let_def split: if_splits option.splits)
  from compile_warmup_Inr [OF cw] obtain fpf h rest out and t0 :: tensor and w4 :: world where
    fk: "fakeify_inputs env fm (map snd (module_params gm)) (heap (w0\<lparr>grad_enabled := True\<rparr>)) = (Inr fpf, h)"
    and after: "compile_after_warmup env fm fake_inputs (map snd (module_params gm))
              (DictSpec (map fst (module_params gm)) (replicate (length (module_params gm)) LeafSpec))
              fpf (device t0)
              (w4\<lparr>allow_non_fake_inputs := (allow_non_fake_inputs w4)(fm := False)\<rparr>)
              = (Inr c, w1)"
    by blast
  have p: "params_flat c = map snd (module_params gm)"
    using compile_after_warmup_params [OF after] .
  have t: "list_all is_Tensor (map snd (module_params gm))"
    using fakeify_inputs_tensors [OF fk] .
  have "\<forall>p \<in> snd ` set (named_parameters gm) \<union> snd ` set (named_buffers gm). \<not> is_FakeTensor p"
    using nofake by (auto simp: assert_no_fake_params_or_buffers_def list_all_iff)
  with module_params_values [of gm] have "\<forall>p \<in> snd ` set (module_params gm). \<not> is_FakeTensor p"
    by blast
  with t p show ?thesis
    by (auto simp: list_all_iff)
qed

text \<open>
  Claim C6. The final output of the compiler is a callable of the runtime arguments alone.
  A call invokes the functionalized graph once, on the closed-over parameter sequence, the
  closed-over state sequence and the runtime arguments, in this order, with gradient
  tracking switched off (what the graph would do under gradient tracking, or on other
  leading arguments, never matters), and gives the caller its gradient mode back. The
  outcome of the call is the outcome of the graph, and the optimizer and the store after
  the call are the ones the graph left: what the graph writes into the closed-over tensors
  stays written for the next call, the sequences themselves never change. The closed-over
  parameter sequence of a compiled callable is the flattened parameters and buffers of
  the module, all of them materialized tensors.
\<close>

theorem call_without_params_contract:
  "fst (call_without_params env c runtime_args w)
     = fst (run_graph env (functional_fx_g c)
              (params_flat c @ named_states_flat c @ runtime_args) (w\<lparr>grad_enabled := False\<rparr>))
   \<and> heap (snd (call_without_params env c runtime_args w))
     = heap (snd (run_graph env (functional_fx_g c)
              (params_flat c @ named_states_flat c @ runtime_args) (w\<lparr>grad_enabled := False\<rparr>)))
   \<and> opt (snd (call_without_params env c runtime_args w))
     = opt (snd (run_graph env (functional_fx_g c)
              (params_flat c @ named_states_flat c @ runtime_args) (w\<lparr>grad_enabled := False\<rparr>)))
   \<and> grad_enabled (snd (call_without_params env c runtime_args w)) = grad_enabled w
   \<and> (\<forall>env'. (\<forall>a w1. \<not> grad_enabled w1 \<longrightarrow>
                   run_graph env' (functional_fx_g c) (params_flat c @ named_states_flat c @ a) w1
                   = run_graph env (functional_fx_g c) (params_flat c @ named_states_flat c @ a) w1)
              \<longrightarrow> call_without_params env' c runtime_args w
                  = call_without_params env c runtime_args w)
   \<and> (\<forall>gm fake_inputs w0 w1. compile_fn env gm fake_inputs w0 = (Inr c, w1) \<longrightarrow>
          params_flat c = map snd (module_params gm)
        \<and> list_all (\<lambda>p. is_Tensor p \<and> \<not> is_FakeTensor p) (params_flat c))"
proof -
  have a: "\<forall>env'. (\<forall>a w1. \<not> grad_enabled w1 \<longrightarrow>
                   run_graph env' (functional_fx_g c) (params_flat c @ named_states_flat c @ a) w1
                   = run_graph env (functional_fx_g c) (params_flat c @ named_states_flat c @ a) w1)
              \<longrightarrow> call_without_params env' c runtime_args w
                  = call_without_params env c runtime_args w"
    by (simp add: call_without_params_def)
  have b: "\<forall>gm fake_inputs w0 w1. compile_fn env gm fake_inputs w0 = (Inr c, w1) \<longrightarrow>
          params_flat c = map snd (module_params gm)
        \<and> list_all (\<lambda>p. is_Tensor p \<and> \<not> is_FakeTensor p) (params_flat c)"
    using compile_fn_closes_over_params by blast
  have c: "fst (call_without_params env c runtime_args w)
     = fst (run_graph env (functional_fx_g c)
              (params_flat c @ named_states_flat c @ runtime_args) (w\<lparr>grad_enabled := False\<rparr>))
   \<and> heap (snd (call_without_params env c runtime_args w))
     = heap (snd (run_graph env (functional_fx_g c)
              (params_flat c @ named_states_flat c @ runtime_args) (w\<lparr>grad_enabled := False\<rparr>)))
   \<and> opt (snd (call_without_params env c runtime_args w))
     = opt (snd (run_graph env (functional_fx_g c)
              (params_flat c @ named_states_flat c @ runtime_args) (w\<lparr>grad_enabled := False\<rparr>)))
   \<and> grad_enabled (snd (call_without_params env c runtime_args w)) = grad_enabled w"
    by (simp add: call_without_params_def case_prod_beta)
  from c a b show ?thesis by blast
qed

theorem call_without_params_contract_witness:
  "call_without_params (ex_graph_env True) ex_compiled [] ex_run_world
     = call_without_params (ex_graph_env False) ex_compiled [] ex_run_world
   \<and> fst (call_without_params (ex_graph_env True) ex_compiled [] ex_run_world) = Inr (PTuple [])
   \<and> grad_enabled ex_run_world
   \<and> grad_enabled (snd (call_without_params (ex_graph_env True) ex_compiled [] ex_run_world))
   \<and> tdata (heap ex_run_world) 1 = [0, 0]
   \<and> tdata (heap (snd (call_without_params (ex_graph_env True) ex_compiled [] ex_run_world))) 1
       = [1, 1]
   \<and> tdata (heap (snd (call_without_params (ex_graph_env True) ex_compiled []
        (snd (call_without_params (ex_graph_env True) ex_compiled [] ex_run_world))))) 1 = [2, 2]"
proof -
  have same: "\<forall>a w1. \<not> grad_enabled w1 \<longrightarrow>
      run_graph (ex_graph_env True) (functional_fx_g ex_compiled)
        (params_flat ex_compiled @ named_states_flat ex_compiled @ a) w1
      = run_graph (ex_graph_env False) (functional_fx_g ex_compiled)
        (params_flat ex_compiled @ named_states_flat ex_compiled @ a) w1"
    by (simp add: ex_graph_env_def ex_run_graph_def)
  from call_without_params_contract [of "ex_graph_env False" ex_compiled "[]" ex_run_world] same
  have eq: "call_without_params (ex_graph_env True) ex_compiled [] ex_run_world
     = call_without_params (ex_graph_env False) ex_compiled [] ex_run_world"
    by blast
  have rest: "fst (call_without_params (ex_graph_env True) ex_compiled [] ex_run_world) = Inr (PTuple [])
   \<and> grad_enabled ex_run_world
   \<and> grad_enabled (snd (call_without_params (ex_graph_env True) ex_compiled [] ex_run_world))
   \<and> tdata (heap ex_run_world) 1 = [0, 0]
   \<and> tdata (heap (snd (call_without_params (ex_graph_env True) ex_compiled [] ex_run_world))) 1
       = [1, 1]
   \<and> tdata (heap (snd (call_without_params (ex_graph_env True) ex_compiled []
        (snd (call_without_params (ex_graph_env True) ex_compiled [] ex_run_world))))) 1 = [2, 2]"
    by (simp add: call_without_params_def ex_graph_env_def ex_run_graph_def ex_compiled_def
          ex_run_world_def cex_world_def ex_store_def ex_tensor_def ex_env_def)
  from eq rest show ?thesis by (rule conjI)
qed


end
